theory Spec2Isabelle
  imports Complex_Main "HOL-Library.Multiset" "HOL-Library.Sublist" "HOL-Library.Product_Lexorder"
begin

section \<open>Values, tables and library parameters\<close>

text \<open>
  A pandas table is a list of column names and a list of rows; a row maps a column name
  to a cell. \<open>Null\<close> stands for NaN, NaT and None alike. Floats are read as reals, without
  the rounding of finite results; the non-finite floats are the extra values of
  \<open>pyfloat\<close>, for the fields that can hold them. Python exceptions are values of \<open>pyerr\<close>; a dictionary
  \<open>{'error': msg}\<close> returned by a metric is \<open>Inl msg\<close> of a sum, which is a result and
  not an exception. A timestamp is kept to the day: the metrics read its month and order
  the rows by it.
\<close>

datatype date = Date (year: int) (month: nat) (day: nat)

datatype cell = Null | Num real | Str string | Dt date

type_synonym row = "string \<Rightarrow> cell"

record frame =
  columns :: "string list"
  rows :: "row list"

record raw_table =
  header :: "string list"
  body :: "cell list list"

datatype pyerr = TypeError | KeyError string | ValueError | AttributeError | DuplicateColumns

datatype pyfloat = Fin real | PInf | NInf | NaN

text \<open>
  The functions of pandas and scikit-learn that parse text or draw random numbers are
  parameters of the model: \<open>to_numeric\<close> is \<open>pd.to_numeric(errors='coerce')\<close> on one
  string, \<open>to_datetime\<close> is \<open>pd.to_datetime(errors='coerce')\<close> on one non-null cell.
\<close>

record pandas =
  to_numeric :: "string \<Rightarrow> real option"
  to_datetime :: "cell \<Rightarrow> date option"

definition has_col :: "frame \<Rightarrow> string \<Rightarrow> bool" where
  "has_col df c = (c \<in> set (columns df))"

definition num_of :: "cell \<Rightarrow> real" where
  "num_of c = (case c of Num x \<Rightarrow> x | _ \<Rightarrow> 0)"

text \<open>\<open>Series.sum()\<close> skips NaN; the sum of no value is 0.\<close>

definition series_sum :: "string \<Rightarrow> row list \<Rightarrow> real" where
  "series_sum c rs = sum_list (map (\<lambda>r. num_of (r c)) rs)"

definition mean :: "real list \<Rightarrow> real" where
  "mean xs = sum_list xs / real (length xs)"

definition assign_column :: "string \<Rightarrow> (row \<Rightarrow> cell) \<Rightarrow> frame \<Rightarrow> frame" where
  "assign_column c f df =
     \<lparr>columns = (if c \<in> set (columns df) then columns df else columns df @ [c]),
      rows = map (\<lambda>r. r(c := f r)) (rows df)\<rparr>"

subsection \<open>Strings\<close>

definition lower_char :: "char \<Rightarrow> char" where
  "lower_char c =
     (case map_of (zip ''ABCDEFGHIJKLMNOPQRSTUVWXYZ'' ''abcdefghijklmnopqrstuvwxyz'') c of
        Some l \<Rightarrow> l | None \<Rightarrow> c)"

definition str_lower :: "string \<Rightarrow> string" where
  "str_lower s = map lower_char s"

text \<open>\<open>kw in s\<close>: the keyword occurs in the text as a contiguous substring.\<close>

fun str_contains :: "string \<Rightarrow> string \<Rightarrow> bool" where
  "str_contains [] kw = (kw = [])"
| "str_contains (c # cs) kw = (prefix kw (c # cs) \<or> str_contains cs kw)"

definition is_space :: "char \<Rightarrow> bool" where
  "is_space c = (c \<in> set [CHR '' '', CHR 0x09, CHR 0x0A, CHR 0x0B, CHR 0x0C, CHR 0x0D,
                            CHR 0x1C, CHR 0x1D, CHR 0x1E, CHR 0x1F])"

definition str_strip :: "string \<Rightarrow> string" where
  "str_strip s = rev (dropWhile is_space (rev (dropWhile is_space s)))"

definition replace_space :: "string \<Rightarrow> string" where
  "replace_space s = map (\<lambda>c. if c = CHR '' '' then CHR ''_'' else c) s"

text \<open>
  The regular expression \<open>[$,\<pounds>\<euro>\<yen>]\<close> of \<open>_clean_data\<close>, on the UTF-8 bytes of the text:
  the dollar sign and the comma are one byte, the pound and yen signs two, the euro
  sign three.
\<close>

fun strip_currency :: "string \<Rightarrow> string" where
  "strip_currency (a # b # c # s) =
     (if a = CHR ''$'' \<or> a = CHR '','' then strip_currency (b # c # s)
      else if a = CHR 0xC2 \<and> (b = CHR 0xA3 \<or> b = CHR 0xA5) then strip_currency (c # s)
      else if a = CHR 0xE2 \<and> b = CHR 0x82 \<and> c = CHR 0xAC then strip_currency s
      else a # strip_currency (b # c # s))"
| "strip_currency [a, b] =
     (if a = CHR ''$'' \<or> a = CHR '','' then strip_currency [b]
      else if a = CHR 0xC2 \<and> (b = CHR 0xA3 \<or> b = CHR 0xA5) then []
      else a # strip_currency [b])"
| "strip_currency [a] = (if a = CHR ''$'' \<or> a = CHR '','' then [] else [a])"
| "strip_currency [] = []"

section \<open>FinancialData: building the table\<close>

subsection \<open>Column names\<close>

definition column_mapping :: "(string \<times> string list) list" where
  "column_mapping =
     [(''revenue'', [''sales'', ''income'', ''turnover'', ''gross_sales'']),
      (''expenses'', [''costs'', ''expenditure'', ''outgoings'', ''spending'']),
      (''date'', [''transaction_date'', ''period'', ''month'', ''time'']),
      (''amount'', [''value'', ''sum'', ''total'']),
      (''category'', [''type'', ''description'', ''account'', ''classification''])]"

text \<open>
  One round of the outer loop of \<open>_standardize_columns\<close>: the first column whose name
  contains one of the variations is renamed, and the inner loop stops.
\<close>

definition standardize_one :: "string list \<Rightarrow> string \<times> string list \<Rightarrow> string list" where
  "standardize_one cs m =
     (case find (\<lambda>col. list_ex (\<lambda>var. str_contains col var) (snd m)) cs of
        None \<Rightarrow> cs
      | Some col \<Rightarrow> map (\<lambda>c. if c = col then fst m else c) cs)"

definition standardize_columns :: "string list \<Rightarrow> string list" where
  "standardize_columns cs = foldl standardize_one cs column_mapping"

definition clean_names :: "string list \<Rightarrow> string list" where
  "clean_names cs = map (\<lambda>c. replace_space (str_lower (str_strip c))) cs"

definition row_of :: "string list \<Rightarrow> cell list \<Rightarrow> row" where
  "row_of names cells c = (case map_of (zip names cells) c of Some v \<Rightarrow> v | None \<Rightarrow> Null)"

subsection \<open>Derived income and expenses\<close>

definition income_keywords :: "string list" where
  "income_keywords = [''income'', ''revenue'', ''sales'', ''receivable'', ''deposit'']"

definition expense_keywords :: "string list" where
  "expense_keywords = [''expense'', ''cost'', ''payment'', ''bill'', ''payable'', ''purchase'']"

text \<open>
  \<open>str.lower().str.contains('k1|k2|...', na=False)\<close> on one cell: the keywords hold no
  regular-expression operator, so the pattern matches when one keyword is a substring.
  A cell that is not text is NaN after \<open>str.lower()\<close> and \<open>na=False\<close> makes it False.
\<close>

definition keyword_mask :: "string list \<Rightarrow> cell \<Rightarrow> bool" where
  "keyword_mask kws c =
     (case c of Str s \<Rightarrow> list_ex (\<lambda>kw. str_contains (str_lower s) kw) kws | _ \<Rightarrow> False)"

text \<open>
  The \<open>.str\<close> accessor raises AttributeError on a column that is not of object dtype.
  A decoded column is of object dtype when it is empty or holds some text.
\<close>

definition str_accessor_ok :: "string \<Rightarrow> row list \<Rightarrow> bool" where
  "str_accessor_ok c rs = (rs = [] \<or> list_ex (\<lambda>r. case r c of Str s \<Rightarrow> True | _ \<Rightarrow> False) rs)"

text \<open>
  \<open>df.loc[mask, col] = df.loc[mask, 'amount']\<close> for a column that does not exist yet:
  the column is created, NaN outside the mask.
\<close>

definition derive_masked :: "string list \<Rightarrow> string \<Rightarrow> frame \<Rightarrow> pyerr + frame" where
  "derive_masked kws c df =
     (if \<not> str_accessor_ok ''category'' (rows df) then Inl AttributeError
      else Inr (assign_column c
             (\<lambda>r. if keyword_mask kws (r ''category'') then r ''amount'' else Null) df))"

definition ensure_income_expenses :: "frame \<Rightarrow> pyerr + frame" where
  "ensure_income_expenses df0 =
     (let df1 = (if has_col df0 ''revenue'' \<and> \<not> has_col df0 ''income''
                 then assign_column ''income'' (\<lambda>r. r ''revenue'') df0 else df0)
      in if has_col df1 ''amount'' \<and> has_col df1 ''category'' then
           (case (if \<not> has_col df1 ''income''
                  then derive_masked income_keywords ''income'' df1 else Inr df1) of
              Inl e \<Rightarrow> Inl e
            | Inr df2 \<Rightarrow>
                if \<not> has_col df2 ''expenses''
                then derive_masked expense_keywords ''expenses'' df2 else Inr df2)
         else Inr df1)"

subsection \<open>Cleaning\<close>

definition numerical_cols :: "string list" where
  "numerical_cols = [''amount'', ''revenue'', ''expenses'', ''income'']"

definition parse_date_cell :: "pandas \<Rightarrow> cell \<Rightarrow> cell" where
  "parse_date_cell pd c =
     (case c of Null \<Rightarrow> Null
      | _ \<Rightarrow> (case to_datetime pd c of Some d \<Rightarrow> Dt d | None \<Rightarrow> Null))"

text \<open>
  \<open>astype(str)\<close>, the removal of the currency signs and \<open>pd.to_numeric\<close> on one cell.
  A number prints and parses back to itself; NaN prints as \<open>nan\<close> and parses to NaN; a
  timestamp prints as text that is no number.
\<close>

definition coerce_numeric :: "pandas \<Rightarrow> cell \<Rightarrow> cell" where
  "coerce_numeric pd c =
     (case c of
        Null \<Rightarrow> Null
      | Num x \<Rightarrow> Num x
      | Str s \<Rightarrow> (case to_numeric pd (strip_currency s) of Some x \<Rightarrow> Num x | None \<Rightarrow> Null)
      | Dt d \<Rightarrow> Null)"

definition coerce_row :: "pandas \<Rightarrow> string list \<Rightarrow> row \<Rightarrow> row" where
  "coerce_row pd cs r = (\<lambda>c. if c \<in> set cs then coerce_numeric pd (r c) else r c)"

text \<open>\<open>dropna(subset=cs)\<close>, called without \<open>how\<close>: pandas then drops a row on any null.\<close>

definition dropna :: "string list \<Rightarrow> row list \<Rightarrow> row list" where
  "dropna cs rs = filter (\<lambda>r. list_all (\<lambda>c. r c \<noteq> Null) cs) rs"

text \<open>The rows after the date column is parsed and the numeric columns are coerced.\<close>

definition coerced_rows :: "pandas \<Rightarrow> frame \<Rightarrow> row list" where
  "coerced_rows pd df =
     map (coerce_row pd (filter (has_col df) numerical_cols))
       (if has_col df ''date''
        then dropna [''date'']
               (map (\<lambda>r. r(''date'' := parse_date_cell pd (r ''date''))) (rows df))
        else rows df)"

definition clean_data :: "pandas \<Rightarrow> frame \<Rightarrow> frame" where
  "clean_data pd df =
     \<lparr>columns = columns df,
      rows = dropna (filter (has_col df) numerical_cols) (coerced_rows pd df)\<rparr>"

text \<open>
  \<open>__init__\<close> after the file is decoded. Two columns that end up under one name are
  outside this table model; the run is cut there with \<open>DuplicateColumns\<close>.
\<close>

definition FinancialData_init :: "pandas \<Rightarrow> raw_table \<Rightarrow> pyerr + frame" where
  "FinancialData_init pd file =
     (let names = standardize_columns (clean_names (header file)) in
      if \<not> distinct names then Inl DuplicateColumns
      else (case ensure_income_expenses
                   \<lparr>columns = names, rows = map (row_of names) (body file)\<rparr> of
              Inl e \<Rightarrow> Inl e
            | Inr df \<Rightarrow> Inr (clean_data pd df)))"

section \<open>Metrics\<close>

text \<open>
  The metric methods run on the table built by \<open>FinancialData_init\<close>, whose date cells
  are timestamps and whose cleaned numeric cells are numbers. A method that assigns to
  \<open>self.df\<close> returns the new table next to its result.
\<close>

subsection \<open>Monthly buckets\<close>

definition month_index :: "date \<Rightarrow> int" where
  "month_index d = 12 * year d + int (month d) - 1"

definition row_month :: "row \<Rightarrow> int option" where
  "row_month r = (case r ''date'' of Dt d \<Rightarrow> Some (month_index d) | _ \<Rightarrow> None)"

text \<open>
  \<open>resample('M')\<close>: one bucket for every calendar month from the month of the earliest
  row to the month of the latest, the months without a row included.
\<close>

definition resample_months :: "row list \<Rightarrow> int list" where
  "resample_months rs =
     (case List.map_filter row_month rs of
        [] \<Rightarrow> []
      | k # ks \<Rightarrow> [fold min ks k .. fold max ks k])"

definition bucket_sum :: "string \<Rightarrow> row list \<Rightarrow> int \<Rightarrow> real" where
  "bucket_sum c rs m = series_sum c (filter (\<lambda>r. row_month r = Some m) rs)"

record monthly =
  m_columns :: "string list"
  m_rows :: "(string \<Rightarrow> real) list"

definition create_monthly_aggregations :: "frame \<Rightarrow> monthly" where
  "create_monthly_aggregations df =
     (let agg = filter (has_col df) [''amount'', ''income'', ''expenses''] in
      if agg = [] then \<lparr>m_columns = [''net_cash_flow''], m_rows = []\<rparr>
      else
        \<lparr>m_columns = ''date'' # agg @ [''net_cash_flow''],
         m_rows = map (\<lambda>m.
            let v = (\<lambda>c. if c \<in> set agg then bucket_sum c (rows df) m else 0)
            in v(''net_cash_flow'' :=
                 (if ''income'' \<in> set agg \<and> ''expenses'' \<in> set agg
                  then v ''income'' - v ''expenses''
                  else if ''amount'' \<in> set agg then v ''amount'' else 0)))
            (resample_months (rows df))\<rparr>)"

definition monthly_net :: "monthly \<Rightarrow> real list" where
  "monthly_net md = map (\<lambda>v. v ''net_cash_flow'') (m_rows md)"

definition get_monthly_cash_flow_average :: "frame \<Rightarrow> real" where
  "get_monthly_cash_flow_average df =
     (if \<not> has_col df ''date'' then 0
      else let md = create_monthly_aggregations df in
        if length (m_rows md) > 0 then mean (monthly_net md) else 0)"

subsection \<open>Seasonal patterns\<close>

definition month_cell :: "row \<Rightarrow> cell" where
  "month_cell r = (case r ''date'' of Dt d \<Rightarrow> Num (real (month d)) | _ \<Rightarrow> Null)"

text \<open>\<open>groupby('month')['amount'].mean()\<close>: the mean of a group without a number is NaN.\<close>

definition groupby_month_mean :: "row list \<Rightarrow> (nat \<times> pyfloat) list" where
  "groupby_month_mean rs =
     map (\<lambda>m. (m, let xs = List.map_filter (\<lambda>r. case r ''amount'' of Num x \<Rightarrow> Some x | _ \<Rightarrow> None)
                              (filter (\<lambda>r. r ''month'' = Num (real m)) rs)
                  in if xs = [] then NaN else Fin (mean xs)))
       (filter (\<lambda>m. list_ex (\<lambda>r. r ''month'' = Num (real m)) rs) [1..<13])"

definition get_seasonal_patterns :: "frame \<Rightarrow> (nat \<times> pyfloat) list \<times> frame" where
  "get_seasonal_patterns df =
     (if \<not> has_col df ''date'' \<or> length (rows df) < 12 then ([], df)
      else let df' = assign_column ''month'' month_cell df in
        (if has_col df' ''amount'' then groupby_month_mean (rows df') else [], df'))"

subsection \<open>Cash flow\<close>

record cash_flow =
  net_cash_flow :: real
  total_income :: real
  total_expenses :: real
  cash_flow_ratio :: pyfloat
  expense_ratio :: real
  monthly_average :: real
  seasonal_analysis :: "(nat \<times> pyfloat) list"

text \<open>
  The division of two floats. A quotient at or beyond \<open>float_overflow\<close>, the largest
  double plus half a unit in its last place, is infinite; a division by zero is
  infinite or NaN. Overflow is modelled for \<open>cash_flow_ratio\<close>, the field that carries
  the infinity sentinel. The two totals are real numbers, so they are finite (a cell
  that reads \<open>inf\<close> and a sum that overflows are not modelled), and a finite quotient is
  kept as the real number, not rounded to a double.
\<close>

definition float_overflow :: real where
  "float_overflow = 2 ^ 1024 - 2 ^ 970"

definition true_divide :: "real \<Rightarrow> real \<Rightarrow> pyfloat" where
  "true_divide x y =
     (if y = 0 then (if x > 0 then PInf else if x < 0 then NInf else NaN)
      else if x / y \<ge> float_overflow then PInf
      else if x / y \<le> - float_overflow then NInf
      else Fin (x / y))"

definition masked_sum :: "string list \<Rightarrow> row list \<Rightarrow> real" where
  "masked_sum kws rs = series_sum ''amount'' (filter (\<lambda>r. keyword_mask kws (r ''category'')) rs)"

definition get_cash_flow :: "frame \<Rightarrow> pyerr + ((string + cash_flow) \<times> frame)" where
  "get_cash_flow df =
     (case (if has_col df ''income'' \<and> has_col df ''expenses''
            then Inr (Some (series_sum ''income'' (rows df), series_sum ''expenses'' (rows df)))
            else if has_col df ''amount'' \<and> has_col df ''category''
            then (if str_accessor_ok ''category'' (rows df)
                  then Inr (Some (masked_sum income_keywords (rows df),
                                  masked_sum expense_keywords (rows df)))
                  else Inl AttributeError)
            else Inr None) of
        Inl e \<Rightarrow> Inl e
      | Inr None \<Rightarrow> Inr (Inl ''Unable to identify income and expense columns'', df)
      | Inr (Some (income, expenses)) \<Rightarrow>
          (let avg = get_monthly_cash_flow_average df;
               seasonal = get_seasonal_patterns df
           in Inr (Inr \<lparr>net_cash_flow = income - expenses,
                        total_income = income,
                        total_expenses = expenses,
                        cash_flow_ratio =
                          (if expenses > 0 then true_divide income expenses else PInf),
                        expense_ratio = (if income > 0 then expenses / income else 0),
                        monthly_average = avg,
                        seasonal_analysis = fst seasonal\<rparr>,
                   snd seasonal)))"

subsection \<open>Machine numbers of the totals\<close>









subsection \<open>Linear regression\<close>

text \<open>
  \<open>LinearRegression().fit(X, y)\<close> with \<open>X = 0, 1, ..., n - 1\<close>: ordinary least squares in
  closed form over the reals, where scikit-learn returns the rounded coefficients.
  \<open>score\<close> is the coefficient of determination by the rule of scikit-learn: on a
  constant series it is 1 when the residual is 0, as it is here, and 0 when rounding
  has left a residue.
\<close>

record linear_model =
  coef :: real
  intercept :: real

definition arange :: "nat \<Rightarrow> real list" where
  "arange n = map real [0..<n]"

definition sq_dev :: "real list \<Rightarrow> real" where
  "sq_dev xs = sum_list (map (\<lambda>x. (x - mean xs)\<^sup>2) xs)"

definition co_dev :: "real list \<Rightarrow> real list \<Rightarrow> real" where
  "co_dev xs ys = sum_list (map (\<lambda>p. (fst p - mean xs) * (snd p - mean ys)) (zip xs ys))"

definition LinearRegression_fit :: "real list \<Rightarrow> linear_model" where
  "LinearRegression_fit ys =
     (let xs = arange (length ys); b = co_dev xs ys / sq_dev xs
      in \<lparr>coef = b, intercept = mean ys - b * mean xs\<rparr>)"

definition predict :: "linear_model \<Rightarrow> real \<Rightarrow> real" where
  "predict m x = intercept m + coef m * x"

definition score :: "linear_model \<Rightarrow> real list \<Rightarrow> real" where
  "score m ys =
     (let res = sum_list (map (\<lambda>p. (snd p - predict m (fst p))\<^sup>2) (zip (arange (length ys)) ys));
          tot = sq_dev ys
      in if tot = 0 then (if res = 0 then 1 else 0) else 1 - res / tot)"

definition np_std :: "real list \<Rightarrow> real" where
  "np_std ys = sqrt (mean (map (\<lambda>y. (y - mean ys)\<^sup>2) ys))"

subsection \<open>Trend\<close>

record trend =
  trend_slope :: real
  r_squared :: real
  current_trajectory :: string
  forecast :: "real list"
  volatility :: real
  trend_strength :: pyfloat

text \<open>
  \<open>sort_values('date')\<close>: ascending, the rows without a date last. Rows of one date
  keep their order here; the quicksort of pandas may leave them in another.
\<close>

definition date_key :: "row \<Rightarrow> int \<times> nat \<times> nat" where
  "date_key r = (case r ''date'' of Dt d \<Rightarrow> (year d, month d, day d) | _ \<Rightarrow> (0, 0, 0))"

definition has_date :: "row \<Rightarrow> bool" where
  "has_date r = (case r ''date'' of Dt d \<Rightarrow> True | _ \<Rightarrow> False)"

definition sort_values_date :: "row list \<Rightarrow> row list" where
  "sort_values_date rs =
     sort_key date_key (filter has_date rs) @ filter (\<lambda>r. \<not> has_date r) rs"

definition calculate_trend_strength :: "real list \<Rightarrow> pyfloat" where
  "calculate_trend_strength ys =
     (if length ys < 3 then Fin 0
      else let xs = arange (length ys) in
        if sq_dev ys = 0 then NaN
        else Fin \<bar>co_dev xs ys / sqrt (sq_dev xs * sq_dev ys)\<bar>)"

definition get_cash_flow_trend :: "frame \<Rightarrow> pyerr + ((string + trend) \<times> frame)" where
  "get_cash_flow_trend df =
     (if \<not> has_col df ''date'' then Inr (Inl ''Date column required for trend analysis'', df)
      else
        let df' = df\<lparr>rows := sort_values_date (rows df)\<rparr>;
            md = create_monthly_aggregations df'
        in if length (m_rows md) < 2
           then Inr (Inl ''Insufficient data for trend analysis'', df')
           else
             let y = monthly_net md;
                 n = length y;
                 model = LinearRegression_fit y
             in Inr (Inr \<lparr>trend_slope = coef model,
                          r_squared = score model y,
                          current_trajectory =
                            (if coef model > 0 then ''improving'' else ''declining''),
                          forecast = map (\<lambda>i. predict model (real i)) [n..<n + 6],
                          volatility = np_std y,
                          trend_strength = calculate_trend_strength y\<rparr>,
                     df'))"

subsection \<open>Profitability\<close>

datatype pyval = PNum real | PStr string

text \<open>
  \<open>Series.sum()\<close> on a column that was not cleaned: numbers add up, text alone
  concatenates, and text next to a number or a timestamp raises TypeError.
\<close>

definition object_sum :: "cell list \<Rightarrow> pyerr + pyval" where
  "object_sum cs =
     (if list_ex (\<lambda>c. case c of Dt d \<Rightarrow> True | _ \<Rightarrow> False) cs then Inl TypeError
      else if \<not> list_ex (\<lambda>c. case c of Str s \<Rightarrow> True | _ \<Rightarrow> False) cs
      then Inr (PNum (sum_list (map num_of cs)))
      else if list_all (\<lambda>c. case c of Str s \<Rightarrow> True | _ \<Rightarrow> False) cs
      then Inr (PStr (concat (map (\<lambda>c. case c of Str s \<Rightarrow> s | _ \<Rightarrow> []) cs)))
      else Inl TypeError)"

definition get_total_revenue :: "frame \<Rightarrow> pyerr + real" where
  "get_total_revenue df =
     (if has_col df ''revenue'' then Inr (series_sum ''revenue'' (rows df))
      else if has_col df ''income'' then Inr (series_sum ''income'' (rows df))
      else if has_col df ''amount'' \<and> has_col df ''category''
      then (if str_accessor_ok ''category'' (rows df)
            then Inr (masked_sum [''income'', ''revenue'', ''sales''] (rows df))
            else Inl AttributeError)
      else Inr 0)"

definition get_total_costs :: "frame \<Rightarrow> pyerr + pyval" where
  "get_total_costs df =
     (if has_col df ''costs'' then object_sum (map (\<lambda>r. r ''costs'') (rows df))
      else if has_col df ''expenses'' then Inr (PNum (series_sum ''expenses'' (rows df)))
      else if has_col df ''amount'' \<and> has_col df ''category''
      then (if str_accessor_ok ''category'' (rows df)
            then Inr (PNum (masked_sum [''expense'', ''cost'', ''payment'', ''bill''] (rows df)))
            else Inl AttributeError)
      else Inr (PNum 0))"

record break_even =
  break_even_transactions :: pyfloat
  break_even_revenue :: pyfloat
  current_transactions :: nat
  margin_of_safety :: pyfloat

record profitability =
  gross_profit :: real
  gross_profit_margin :: real
  revenue :: real
  costs :: real
  profit_per_transaction :: real
  break_even_analysis :: "string + break_even"
  profitability_trend :: real

text \<open>
  The helper methods call \<open>_get_total_revenue\<close> and \<open>_get_total_costs\<close> again on the same
  table; the model hands the two totals on.
\<close>

definition get_profit_per_transaction :: "frame \<Rightarrow> real \<Rightarrow> real \<Rightarrow> real" where
  "get_profit_per_transaction df rv cst =
     (if length (rows df) = 0 then 0 else (rv - cst) / real (length (rows df)))"

text \<open>\<open>Series.quantile(q)\<close>: linear interpolation between the sorted numbers, NaN skipped.\<close>

definition quantile :: "real \<Rightarrow> real list \<Rightarrow> pyfloat" where
  "quantile q xs =
     (if xs = [] then NaN
      else let s = sort xs;
               pos = q * real (length s - 1);
               lo = nat \<lfloor>pos\<rfloor>;
               hi = min (lo + 1) (length s - 1)
           in Fin (s ! lo + (pos - real lo) * (s ! hi - s ! lo)))"

definition estimate_fixed_costs :: "frame \<Rightarrow> pyfloat" where
  "estimate_fixed_costs df =
     (if has_col df ''expenses''
      then quantile (1 / 10)
             (List.map_filter (\<lambda>r. case r ''expenses'' of Num x \<Rightarrow> Some x | _ \<Rightarrow> None) (rows df))
      else Fin 0)"

definition estimate_variable_cost_ratio :: "real \<Rightarrow> real \<Rightarrow> real" where
  "estimate_variable_cost_ratio rv cst = (if rv > 0 then cst / rv else 0)"

definition calculate_break_even :: "frame \<Rightarrow> real \<Rightarrow> real \<Rightarrow> string + break_even" where
  "calculate_break_even df rv cst =
     (let fixed_costs = estimate_fixed_costs df;
          ratio = estimate_variable_cost_ratio rv cst;
          avg = (if length (rows df) > 0 then rv / real (length (rows df)) else 0)
      in if avg > 0 \<and> ratio < 1 then
           (let margin = avg * (1 - ratio);
                n = (if margin > 0
                     then (case fixed_costs of Fin f \<Rightarrow> Fin (f / margin) | x \<Rightarrow> x)
                     else PInf)
            in Inr \<lparr>break_even_transactions = n,
                    break_even_revenue = (case n of Fin b \<Rightarrow> Fin (b * avg) | x \<Rightarrow> x),
                    current_transactions = length (rows df),
                    margin_of_safety =
                      (case n of Fin b \<Rightarrow> Fin (real (length (rows df)) - b)
                       | PInf \<Rightarrow> Fin 0 | NInf \<Rightarrow> PInf | NaN \<Rightarrow> NaN)\<rparr>)
         else Inl ''Insufficient data for break-even analysis'')"

text \<open>
  The monthly profit margin \<open>(income - expenses) / income\<close> is NaN for a month without
  income or expenses, which \<open>fillna(0)\<close> turns into 0, and infinite for a month with
  expenses and no income (\<open>None\<close> here), which the regression refuses with ValueError.
  A monthly table without an \<open>income\<close> or \<open>expenses\<close> column raises KeyError.
\<close>

definition monthly_margin :: "(string \<Rightarrow> real) \<Rightarrow> real option" where
  "monthly_margin v =
     (if v ''income'' = 0 then (if v ''expenses'' = 0 then Some 0 else None)
      else Some ((v ''income'' - v ''expenses'') / v ''income''))"

definition get_profitability_trend :: "frame \<Rightarrow> pyerr + real" where
  "get_profitability_trend df =
     (if \<not> has_col df ''date'' then Inr 0
      else let md = create_monthly_aggregations df in
        if length (m_rows md) < 2 then Inr 0
        else if ''income'' \<notin> set (m_columns md) then Inl (KeyError ''income'')
        else if ''expenses'' \<notin> set (m_columns md) then Inl (KeyError ''expenses'')
        else let ms = map monthly_margin (m_rows md) in
          if list_ex (\<lambda>m. m = None) ms then Inl ValueError
          else Inr (coef (LinearRegression_fit (map the ms))))"

definition get_profitability :: "frame \<Rightarrow> pyerr + (string + profitability)" where
  "get_profitability df =
     (case get_total_revenue df of
        Inl e \<Rightarrow> Inl e
      | Inr rv \<Rightarrow>
         (case get_total_costs df of
            Inl e \<Rightarrow> Inl e
          | Inr cv \<Rightarrow>
              if rv \<le> 0 then Inr (Inl ''No revenue data found'')
              else (case cv of
                      PStr s \<Rightarrow> Inl TypeError
                    | PNum cst \<Rightarrow>
                       (case get_profitability_trend df of
                          Inl e \<Rightarrow> Inl e
                        | Inr t \<Rightarrow>
                            Inr (Inr \<lparr>gross_profit = rv - cst,
                                      gross_profit_margin = (rv - cst) / rv,
                                      revenue = rv,
                                      costs = cst,
                                      profit_per_transaction =
                                        get_profit_per_transaction df rv cst,
                                      break_even_analysis = calculate_break_even df rv cst,
                                      profitability_trend = t\<rparr>)))))"

subsection \<open>Anomalies\<close>

text \<open>
  \<open>IsolationForest(contamination, random_state).fit_predict(X)\<close> is a parameter: it is
  given the contamination rate, the seed (\<open>None\<close> when the caller passes none), the state
  of the process-wide random generator at the time of the call, and the feature column,
  and returns one label per row, -1 for an outlier.
\<close>

type_synonym isolation_forest = "real \<Rightarrow> nat option \<Rightarrow> nat \<Rightarrow> real list \<Rightarrow> int list"

text \<open>
  \<open>anomaly_indices\<close> is the local array of that name, the positions of the flagged rows,
  from which the entries of the returned dictionary are computed.
\<close>

record anomaly_report =
  anomaly_indices :: "nat list"
  anomaly_count :: nat
  anomaly_percentage :: real
  anomalies :: "row list"
  total_anomaly_value :: real

definition detect_anomalies ::
  "isolation_forest \<Rightarrow> nat \<Rightarrow> frame \<Rightarrow> string + anomaly_report" where
  "detect_anomalies fit_predict rng df =
     (if length (rows df) < 10 then Inl ''Insufficient data for anomaly detection''
      else if \<not> has_col df ''amount'' then Inl ''No suitable columns for anomaly detection''
      else
        let X = map (\<lambda>r. num_of (r ''amount'')) (rows df);
            labels = fit_predict (1 / 10) (Some 42) rng X;
            idx = filter (\<lambda>i. labels ! i = - 1) [0..<length labels];
            anomaly_data = map fst (filter (\<lambda>p. snd p = - 1) (zip (rows df) labels))
        in Inr \<lparr>anomaly_indices = idx,
                anomaly_count = length idx,
                anomaly_percentage = real (length idx) / real (length (rows df)) * 100,
                anomalies = take 20 anomaly_data,
                total_anomaly_value = series_sum ''amount'' anomaly_data\<rparr>)"

subsection \<open>Health score\<close>

record health =
  health_score :: int
  grade :: string
  assessment :: string

definition pf_gt :: "pyfloat \<Rightarrow> real \<Rightarrow> bool" where
  "pf_gt x c = (case x of Fin a \<Rightarrow> a > c | PInf \<Rightarrow> True | NInf \<Rightarrow> False | NaN \<Rightarrow> False)"

definition pf_lt :: "pyfloat \<Rightarrow> real \<Rightarrow> bool" where
  "pf_lt x c = (case x of Fin a \<Rightarrow> a < c | PInf \<Rightarrow> False | NInf \<Rightarrow> True | NaN \<Rightarrow> False)"

definition score_to_grade :: "int \<Rightarrow> string" where
  "score_to_grade s =
     (if s \<ge> 90 then ''A+'' else if s \<ge> 80 then ''A'' else if s \<ge> 70 then ''B''
      else if s \<ge> 60 then ''C'' else if s \<ge> 50 then ''D'' else ''F'')"

definition get_health_assessment :: "int \<Rightarrow> string" where
  "get_health_assessment s =
     (if s \<ge> 80 then ''Excellent financial health with strong performance indicators''
      else if s \<ge> 60 then ''Good financial health with some areas for improvement''
      else if s \<ge> 40 then ''Moderate financial health requiring attention to key areas''
      else ''Poor financial health requiring immediate action'')"

text \<open>
  The four blocks of \<open>get_financial_health_score\<close> on the three metric results, before
  the score is capped at \<open>max_score\<close>.
\<close>

definition cash_points :: "string + cash_flow \<Rightarrow> int" where
  "cash_points cf =
     (case cf of
        Inl e \<Rightarrow> 0
      | Inr c \<Rightarrow> if net_cash_flow c > 0
                 then 20 + (if pf_gt (cash_flow_ratio c) (12 / 10) then 10 else 0) else 0)"

definition margin_points :: "string + profitability \<Rightarrow> int" where
  "margin_points pr =
     (case pr of
        Inl e \<Rightarrow> 0
      | Inr p \<Rightarrow> if gross_profit_margin p > 3 / 10 then 30
                 else if gross_profit_margin p > 15 / 100 then 20
                 else if gross_profit_margin p > 5 / 100 then 10 else 0)"

definition trend_points :: "string + trend \<Rightarrow> int" where
  "trend_points tr =
     (case tr of
        Inl e \<Rightarrow> 0
      | Inr t \<Rightarrow> if trend_slope t > 0
                 then 15 + (if r_squared t > 7 / 10 then 10 else 0) else 0)"

definition scale_of :: "string + cash_flow \<Rightarrow> real" where
  "scale_of cf =
     mean [\<bar>case cf of Inl e \<Rightarrow> 0 | Inr c \<Rightarrow> total_income c\<bar>,
           \<bar>case cf of Inl e \<Rightarrow> 0 | Inr c \<Rightarrow> total_expenses c\<bar>]"

definition consistency_points :: "string + cash_flow \<Rightarrow> string + trend \<Rightarrow> int" where
  "consistency_points cf tr =
     (case tr of
        Inl e \<Rightarrow> 0
      | Inr t \<Rightarrow> if volatility t < scale_of cf * (1 / 10) then 15
                 else if volatility t < scale_of cf * (2 / 10) then 10 else 0)"

definition health_of :: "string + cash_flow \<Rightarrow> string + profitability \<Rightarrow> string + trend \<Rightarrow> health" where
  "health_of cf pr tr =
     (let s = cash_points cf + margin_points pr + trend_points tr + consistency_points cf tr
      in \<lparr>health_score = min s 100,
          grade = score_to_grade (min s 100),
          assessment = get_health_assessment (min s 100)\<rparr>)"

definition get_financial_health_score :: "frame \<Rightarrow> pyerr + (health \<times> frame)" where
  "get_financial_health_score df =
     (case get_cash_flow df of
        Inl e \<Rightarrow> Inl e
      | Inr (cf, df1) \<Rightarrow>
         (case get_profitability df1 of
            Inl e \<Rightarrow> Inl e
          | Inr pr \<Rightarrow>
             (case get_cash_flow_trend df1 of
                Inl e \<Rightarrow> Inl e
              | Inr (tr, df2) \<Rightarrow> Inr (health_of cf pr tr, df2))))"

section \<open>BenchmarkAnalysis\<close>

record benchmark =
  bm_profit_margin :: real
  bm_cash_flow_ratio :: real
  bm_expense_ratio :: real

definition INDUSTRY_BENCHMARKS :: "(string \<times> benchmark) list" where
  "INDUSTRY_BENCHMARKS =
     [(''retail'', \<lparr>bm_profit_margin = 5 / 100, bm_cash_flow_ratio = 115 / 100, bm_expense_ratio = 85 / 100\<rparr>),
      (''services'', \<lparr>bm_profit_margin = 15 / 100, bm_cash_flow_ratio = 125 / 100, bm_expense_ratio = 75 / 100\<rparr>),
      (''manufacturing'', \<lparr>bm_profit_margin = 8 / 100, bm_cash_flow_ratio = 120 / 100, bm_expense_ratio = 80 / 100\<rparr>),
      (''technology'', \<lparr>bm_profit_margin = 25 / 100, bm_cash_flow_ratio = 140 / 100, bm_expense_ratio = 65 / 100\<rparr>),
      (''consulting'', \<lparr>bm_profit_margin = 20 / 100, bm_cash_flow_ratio = 130 / 100, bm_expense_ratio = 70 / 100\<rparr>),
      (''default'', \<lparr>bm_profit_margin = 10 / 100, bm_cash_flow_ratio = 120 / 100, bm_expense_ratio = 80 / 100\<rparr>)]"

definition benchmarks_for :: "string \<Rightarrow> benchmark" where
  "benchmarks_for industry =
     (case map_of INDUSTRY_BENCHMARKS industry of
        Some b \<Rightarrow> b
      | None \<Rightarrow> \<lparr>bm_profit_margin = 10 / 100, bm_cash_flow_ratio = 120 / 100,
                  bm_expense_ratio = 80 / 100\<rparr>)"

definition calculate_percentile :: "pyfloat \<Rightarrow> string \<Rightarrow> nat" where
  "calculate_percentile difference metric_type =
     (if metric_type = ''profit_margin'' then
        (if pf_gt difference (5 / 100) then 90 else if pf_gt difference (2 / 100) then 75
         else if pf_gt difference (- (2 / 100)) then 50 else 25)
      else if metric_type = ''cash_flow_ratio'' then
        (if pf_gt difference (2 / 10) then 90 else if pf_gt difference (1 / 10) then 75
         else if pf_gt difference (- (1 / 10)) then 50 else 25)
      else if metric_type = ''expense_ratio'' then
        (if pf_gt difference (1 / 10) then 90 else if pf_gt difference (5 / 100) then 75
         else if pf_gt difference (- (5 / 100)) then 50 else 25)
      else 50)"

record comparison =
  your_performance :: pyfloat
  industry_benchmark :: real
  difference :: pyfloat
  performance :: string
  percentile :: nat

definition compare_entry :: "string \<Rightarrow> pyfloat \<Rightarrow> real \<Rightarrow> pyfloat \<Rightarrow> string \<times> comparison" where
  "compare_entry metric mine bench diff =
     (metric, \<lparr>your_performance = mine, industry_benchmark = bench, difference = diff,
               performance = (if pf_gt diff 0 then ''above'' else ''below''),
               percentile = calculate_percentile diff metric\<rparr>)"

definition pf_minus :: "pyfloat \<Rightarrow> real \<Rightarrow> pyfloat" where
  "pf_minus x c =
     (case x of Fin a \<Rightarrow> Fin (a - c) | PInf \<Rightarrow> PInf | NInf \<Rightarrow> NInf | NaN \<Rightarrow> NaN)"

definition compare_to_industry ::
  "frame \<Rightarrow> string \<Rightarrow> pyerr + ((string \<times> comparison) list \<times> frame)" where
  "compare_to_industry df industry =
     (let benchmarks = benchmarks_for industry in
      case get_cash_flow df of
        Inl e \<Rightarrow> Inl e
      | Inr (cf, df1) \<Rightarrow>
         (case get_profitability df1 of
            Inl e \<Rightarrow> Inl e
          | Inr pr \<Rightarrow>
              Inr ((case pr of
                      Inl e \<Rightarrow> []
                    | Inr p \<Rightarrow>
                        [compare_entry ''profit_margin'' (Fin (gross_profit_margin p))
                           (bm_profit_margin benchmarks)
                           (Fin (gross_profit_margin p - bm_profit_margin benchmarks))])
                   @ (case cf of
                        Inl e \<Rightarrow> []
                      | Inr c \<Rightarrow>
                          [compare_entry ''cash_flow_ratio'' (cash_flow_ratio c)
                             (bm_cash_flow_ratio benchmarks)
                             (pf_minus (cash_flow_ratio c) (bm_cash_flow_ratio benchmarks)),
                           compare_entry ''expense_ratio'' (Fin (expense_ratio c))
                             (bm_expense_ratio benchmarks)
                             (Fin (bm_expense_ratio benchmarks - expense_ratio c))]),
                   df1)))"

section \<open>Insights, recommendations and alerts\<close>

text \<open>
  The profitability section handed to the rule sets is the dictionary of
  \<open>get_profitability\<close> or the placeholder of \<open>process_financial_data\<close>, whose entries
  are the text \<open>N/A\<close>. Python compares a number with a number; comparing text with a
  float raises TypeError. The messages are kept by their fixed wording, without the
  formatted figures.
\<close>

datatype prof_section = Computed profitability | Placeholder

definition margin_entry :: "prof_section \<Rightarrow> pyval" where
  "margin_entry p =
     (case p of Computed x \<Rightarrow> PNum (gross_profit_margin x) | Placeholder \<Rightarrow> PStr ''N/A'')"

definition revenue_entry :: "prof_section \<Rightarrow> pyval" where
  "revenue_entry p =
     (case p of Computed x \<Rightarrow> PNum (revenue x) | Placeholder \<Rightarrow> PStr ''N/A'')"

definition break_even_entry :: "prof_section \<Rightarrow> string + break_even" where
  "break_even_entry p =
     (case p of Computed x \<Rightarrow> break_even_analysis x | Placeholder \<Rightarrow> Inl ''Not enough data'')"

definition py_gt :: "pyval \<Rightarrow> real \<Rightarrow> pyerr + bool" where
  "py_gt v c = (case v of PNum x \<Rightarrow> Inr (x > c) | PStr s \<Rightarrow> Inl TypeError)"

definition py_lt :: "pyval \<Rightarrow> real \<Rightarrow> pyerr + bool" where
  "py_lt v c = (case v of PNum x \<Rightarrow> Inr (x < c) | PStr s \<Rightarrow> Inl TypeError)"

definition and_then :: "pyerr + 'a \<Rightarrow> ('a \<Rightarrow> pyerr + 'b) \<Rightarrow> pyerr + 'b" where
  "and_then m f = (case m of Inl e \<Rightarrow> Inl e | Inr x \<Rightarrow> f x)"

definition net_or_0 :: "string + cash_flow \<Rightarrow> real" where
  "net_or_0 cf = (case cf of Inl e \<Rightarrow> 0 | Inr c \<Rightarrow> net_cash_flow c)"

definition ratio_or_1 :: "string + cash_flow \<Rightarrow> pyfloat" where
  "ratio_or_1 cf = (case cf of Inl e \<Rightarrow> Fin 1 | Inr c \<Rightarrow> cash_flow_ratio c)"

definition expense_ratio_or_0 :: "string + cash_flow \<Rightarrow> real" where
  "expense_ratio_or_0 cf = (case cf of Inl e \<Rightarrow> 0 | Inr c \<Rightarrow> expense_ratio c)"

definition slope_or_0 :: "string + trend \<Rightarrow> real" where
  "slope_or_0 tr = (case tr of Inl e \<Rightarrow> 0 | Inr t \<Rightarrow> trend_slope t)"

definition volatility_or_0 :: "string + trend \<Rightarrow> real" where
  "volatility_or_0 tr = (case tr of Inl e \<Rightarrow> 0 | Inr t \<Rightarrow> volatility t)"

subsection \<open>generate_insights\<close>

definition analyze_cash_flow :: "string + cash_flow \<Rightarrow> string list" where
  "analyze_cash_flow cf =
     (case cf of
        Inl e \<Rightarrow> [''Unable to analyze cash flow - insufficient data'']
      | Inr c \<Rightarrow>
          (if net_cash_flow c > 0
           then ''Positive cash flow indicates healthy financial operations''
                # (if pf_gt (cash_flow_ratio c) (15 / 10)
                   then [''Excellent cash flow ratio shows strong financial stability''] else [])
           else [''Negative cash flow requires immediate attention'',
                 ''Consider implementing stricter credit terms and faster collection processes''])
          @ (if total_income c > 0 \<and> total_expenses c > 0
             then (if total_expenses c / total_income c > 9 / 10
                   then [''High expense ratio - costs are consuming most of your income'']
                   else if total_expenses c / total_income c < 7 / 10
                   then [''Healthy expense ratio shows good cost management''] else [])
             else [])
          @ (if monthly_average c \<noteq> 0
             then (if monthly_average c > 0
                   then [''Average monthly cash flow shows consistent performance'']
                   else [''Average monthly cash flow indicates structural issues''])
             else []))"

definition analyze_profitability :: "prof_section \<Rightarrow> pyerr + string list" where
  "analyze_profitability p =
     and_then (py_gt (margin_entry p) (4 / 10)) (\<lambda>exceptional.
     and_then (py_gt (margin_entry p) (2 / 10)) (\<lambda>strong.
     and_then (py_gt (margin_entry p) (1 / 10)) (\<lambda>moderate.
     and_then (py_gt (margin_entry p) 0) (\<lambda>low.
     and_then (py_gt (revenue_entry p) 0) (\<lambda>has_revenue.
       Inr ([if exceptional then ''Exceptional profit margin - you are operating very efficiently''
             else if strong then ''Strong profit margin - good pricing and cost control''
             else if moderate then ''Moderate profit margin - room for improvement''
             else if low then ''Low profit margin - urgent optimization needed''
             else ''Operating at a loss - immediate action required'']
            @ (if has_revenue then [''Total revenue with gross profit''] else [])
            @ (case break_even_entry p of
                 Inl e \<Rightarrow> []
               | Inr b \<Rightarrow>
                   if pf_lt (break_even_transactions b) (real (current_transactions b))
                   then [''Operating above break-even point'']
                   else [''Need more transactions to reach break-even''])))))))"

definition analyze_trends :: "string + trend \<Rightarrow> string list" where
  "analyze_trends tr =
     (case tr of
        Inl e \<Rightarrow> [''Unable to analyze trends - insufficient historical data'']
      | Inr t \<Rightarrow>
          (if trend_slope t > 0
           then ''Cash flow is trending upward''
                # (if r_squared t > 7 / 10
                   then [''Strong trend reliability suggests sustainable growth''] else [])
           else [''Cash flow is declining'',
                 ''Investigate underlying causes and implement corrective measures''])
          @ (if volatility t > 0
             then (if volatility t < 1000
                   then [''Low volatility indicates stable and predictable cash flows'']
                   else if volatility t > 5000
                   then [''High volatility suggests unpredictable cash flows''] else [])
             else [])
          @ (if forecast t \<noteq> []
             then (if sum_list (forecast t) / real (length (forecast t)) > 0
                   then [''6-month forecast shows average monthly cash flow'']
                   else [''Forecast indicates potential cash flow challenges ahead''])
             else []))"

definition analyze_health_score :: "health \<Rightarrow> string list" where
  "analyze_health_score h =
     (if health_score h \<ge> 90
      then [''Excellent financial health score'',
            ''Your business demonstrates exceptional financial management'']
      else if health_score h \<ge> 70
      then [''Good financial health score'',
            ''Strong financial foundation with minor areas for improvement'']
      else if health_score h \<ge> 50
      then [''Moderate financial health score'',
            ''Several opportunities to strengthen your financial position'']
      else [''Poor financial health score'',
            ''Immediate action needed to improve financial stability''])
     @ [''Assessment: '' @ assessment h]"

definition assess_risks ::
  "string + cash_flow \<Rightarrow> prof_section \<Rightarrow> string + trend \<Rightarrow> pyerr + (string \<times> string) list" where
  "assess_risks cf p tr =
     and_then (py_lt (margin_entry p) (5 / 100)) (\<lambda>thin.
       Inr ((if net_or_0 cf < 0
             then [(''liquidity'', if net_or_0 cf < - 5000 then ''high'' else ''medium'')] else [])
            @ (if thin then [(''profitability'', ''high'')] else [])
            @ (if slope_or_0 tr < 0 then [(''trend'', ''medium'')] else [])
            @ (if volatility_or_0 tr > 5000 then [(''volatility'', ''medium'')] else [])))"

definition identify_opportunities ::
  "string + cash_flow \<Rightarrow> prof_section \<Rightarrow> string + trend \<Rightarrow> pyerr + string list" where
  "identify_opportunities cf p tr =
     and_then (py_gt (margin_entry p) (1 / 10)) (\<lambda>above_tenth.
     and_then (py_lt (margin_entry p) (3 / 10)) (\<lambda>below_three_tenths.
     and_then (py_gt (margin_entry p) (2 / 10)) (\<lambda>above_fifth.
       Inr ((if net_or_0 cf > 10000 then [''investment''] else [])
            @ (if above_tenth \<and> below_three_tenths then [''margin_improvement''] else [])
            @ (if slope_or_0 tr > 0 \<and> above_fifth then [''expansion''] else [])
            @ (if expense_ratio_or_0 cf > 8 / 10 then [''efficiency''] else [])))))"

record insights =
  cash_flow_insights :: "string list"
  profitability_insights :: "string list"
  trend_insights :: "string list"
  health_insights :: "string list"
  risk_assessment :: "(string \<times> string) list"
  growth_opportunities :: "string list"

definition generate_insights ::
  "string + cash_flow \<Rightarrow> prof_section \<Rightarrow> string + trend \<Rightarrow> health \<Rightarrow> pyerr + insights" where
  "generate_insights cf p tr h =
     and_then (analyze_profitability p) (\<lambda>pi.
     and_then (assess_risks cf p tr) (\<lambda>risks.
     and_then (identify_opportunities cf p tr) (\<lambda>opps.
       Inr \<lparr>cash_flow_insights = analyze_cash_flow cf,
            profitability_insights = pi,
            trend_insights = analyze_trends tr,
            health_insights = analyze_health_score h,
            risk_assessment = risks,
            growth_opportunities = opps\<rparr>)))"

subsection \<open>generate_recommendations\<close>

record recommendations =
  immediate_actions :: "string list"
  short_term_strategies :: "string list"
  long_term_strategies :: "string list"
  strategic_recommendations :: "string list"
  cost_optimization :: "string list"
  revenue_enhancement :: "string list"
  risk_mitigation :: "string list"

definition benchmark_recommendations :: "(string \<times> comparison) list \<Rightarrow> string list" where
  "benchmark_recommendations cmp =
     concat (map (\<lambda>e.
        if performance (snd e) = ''below'' then
          (if fst e = ''profit_margin''
           then [''Your profit margin is below industry average. Focus on operational efficiency and pricing optimization.'']
           else if fst e = ''cash_flow_ratio''
           then [''Your cash flow ratio is below industry standards. Improve working capital management and payment collection.'']
           else [])
        else []) cmp)"

definition generate_recommendations ::
  "string + cash_flow \<Rightarrow> prof_section \<Rightarrow> string + trend \<Rightarrow> (string \<times> comparison) list
     \<Rightarrow> string \<Rightarrow> pyerr + recommendations" where
  "generate_recommendations cf p tr cmp business_size =
     and_then (py_lt (margin_entry p) (5 / 100)) (\<lambda>thin.
     and_then (py_lt (margin_entry p) (3 / 10)) (\<lambda>below_three_tenths.
       Inr \<lparr>immediate_actions =
              (if net_or_0 cf < 0
               then [''Immediately review and reduce non-essential expenses'',
                     ''Accelerate accounts receivable collection'',
                     ''Consider emergency financing options if cash position is critical'']
               else [])
              @ (if thin
                 then [''Conduct urgent pricing analysis and consider price increases'',
                       ''Review and renegotiate supplier contracts'',
                       ''Identify and eliminate unprofitable products/services'']
                 else []),
            short_term_strategies =
              (if pf_lt (ratio_or_1 cf) (12 / 10)
               then [''Implement stricter payment terms for new customers'',
                     ''Optimize inventory levels to free up working capital'',
                     ''Explore factoring or invoice financing options'']
               else []),
            long_term_strategies =
              (if slope_or_0 tr < 0
               then [''Develop new revenue streams to diversify income'',
                     ''Invest in customer acquisition and retention programs'',
                     ''Consider strategic partnerships or market expansion'']
               else []),
            strategic_recommendations =
              benchmark_recommendations cmp
              @ (if business_size = ''small''
                 then [''Consider cloud-based financial management tools for better insights'',
                       ''Implement automated invoicing and payment systems'',
                       ''Focus on building strong customer relationships for organic growth'']
                 else []),
            cost_optimization =
              (if expense_ratio_or_0 cf > 8 / 10
               then [''Conduct comprehensive expense audit'',
                     ''Implement zero-based budgeting approach'',
                     ''Automate manual processes to reduce labor costs'',
                     ''Negotiate better rates with vendors and suppliers'']
               else []),
            revenue_enhancement =
              (if below_three_tenths
               then [''Develop premium service offerings with higher margins'',
                     ''Implement value-based pricing strategies'',
                     ''Focus on customer retention to reduce acquisition costs'',
                     ''Explore cross-selling and upselling opportunities'']
               else []),
            risk_mitigation = []\<rparr>))"

subsection \<open>create_financial_alerts\<close>

record alert =
  alert_type :: string
  impact :: string
  urgency :: string

record alerts =
  critical_alerts :: "alert list"
  warning_alerts :: "alert list"
  opportunity_alerts :: "alert list"
  overall_risk :: string

definition calculate_overall_risk :: "alert list \<Rightarrow> alert list \<Rightarrow> string" where
  "calculate_overall_risk critical warning =
     (if length critical > 2 then ''very_high''
      else if length critical > 0 then ''high''
      else if length warning > 3 then ''medium''
      else if length warning > 0 then ''low''
      else ''minimal'')"

definition create_financial_alerts ::
  "string + cash_flow \<Rightarrow> prof_section \<Rightarrow> string + anomaly_report \<Rightarrow> health \<Rightarrow> pyerr + alerts" where
  "create_financial_alerts cf p an h =
     and_then (py_lt (margin_entry p) (1 / 10)) (\<lambda>low_margin.
     and_then (py_gt (margin_entry p) (3 / 10)) (\<lambda>high_margin.
       let critical =
             (if net_or_0 cf < - 1000
              then [\<lparr>alert_type = ''cash_flow'', impact = ''high'', urgency = ''immediate''\<rparr>]
              else [])
             @ (if health_score h < 40
                then [\<lparr>alert_type = ''financial_health'', impact = ''high'', urgency = ''immediate''\<rparr>]
                else []);
           warning =
             (if pf_lt (ratio_or_1 cf) (11 / 10)
              then [\<lparr>alert_type = ''liquidity'', impact = ''medium'', urgency = ''within_week''\<rparr>]
              else [])
             @ (if low_margin
                then [\<lparr>alert_type = ''profitability'', impact = ''medium'', urgency = ''within_month''\<rparr>]
                else [])
             @ (if (case an of Inl e \<Rightarrow> 0 | Inr a \<Rightarrow> anomaly_count a) > 0
                then [\<lparr>alert_type = ''anomalies'', impact = ''medium'', urgency = ''within_week''\<rparr>]
                else []);
           opportunity =
             (if net_or_0 cf > 10000
              then [\<lparr>alert_type = ''investment'', impact = ''positive'', urgency = ''consider''\<rparr>]
              else [])
             @ (if high_margin
                then [\<lparr>alert_type = ''expansion'', impact = ''positive'', urgency = ''consider''\<rparr>]
                else [])
       in Inr \<lparr>critical_alerts = critical, warning_alerts = warning,
               opportunity_alerts = opportunity,
               overall_risk = calculate_overall_risk critical warning\<rparr>))"

section \<open>FinancialAnalysisService\<close>

record forecast_data =
  next_6_months :: "real list"
  confidence_level :: string
  optimistic :: "real list"
  pessimistic :: "real list"
  realistic :: "real list"

definition generate_forecast :: "string + trend \<Rightarrow> string + forecast_data" where
  "generate_forecast tr =
     (case tr of
        Inl e \<Rightarrow> Inl ''Insufficient data for forecasting''
      | Inr t \<Rightarrow>
          Inr \<lparr>next_6_months = forecast t,
               confidence_level = (if r_squared t > 5 / 10 then ''medium'' else ''low''),
               optimistic = map (\<lambda>x. x * (12 / 10)) (forecast t),
               pessimistic = map (\<lambda>x. x * (8 / 10)) (forecast t),
               realistic = forecast t\<rparr>)"

record action_item =
  priority :: string
  category :: string
  action :: string
  timeline :: string

definition generate_action_items :: "recommendations \<Rightarrow> alerts \<Rightarrow> action_item list" where
  "generate_action_items recs al =
     map (\<lambda>a. \<lparr>priority = ''high'', category = ''alert'', action = alert_type a,
               timeline = ''immediate''\<rparr>) (critical_alerts al)
     @ map (\<lambda>r. \<lparr>priority = ''medium'', category = ''improvement'', action = r,
                 timeline = ''1-2 weeks''\<rparr>) (immediate_actions recs)
     @ map (\<lambda>r. \<lparr>priority = ''low'', category = ''strategic'', action = r,
                 timeline = ''1-3 months''\<rparr>) (strategic_recommendations recs)"

record executive_summary =
  overall_health :: string
  key_findings :: "string list"
  critical_issues :: "string list"
  opportunities :: "string list"
  next_steps :: "string list"

text \<open>
  \<open>_generate_executive_summary\<close> looks at the type of the margin before it compares it
  (\<open>isinstance(gpm, (int, float))\<close>), so the placeholder goes to the last branch. The
  message on a non-positive cash flow reads \<open>cash_flow['net_cash_flow']\<close>, a KeyError on
  the error dictionary.
\<close>

definition generate_executive_summary ::
  "health \<Rightarrow> string + cash_flow \<Rightarrow> prof_section \<Rightarrow> recommendations
     \<Rightarrow> pyerr + executive_summary" where
  "generate_executive_summary h cf p recs =
     (if \<not> net_or_0 cf > 0 \<and> (case cf of Inl e \<Rightarrow> True | Inr c \<Rightarrow> False)
      then Inl (KeyError ''net_cash_flow'')
      else
        Inr \<lparr>overall_health = grade h,
             key_findings =
               (if net_or_0 cf > 0 then [''Positive cash flow''] else [])
               @ (case margin_entry p of
                    PNum m \<Rightarrow> if m > 15 / 100 then [''Strong profit margin''] else []
                  | PStr s \<Rightarrow> []),
             critical_issues =
               (if net_or_0 cf > 0 then [] else [''Negative cash flow''])
               @ (case margin_entry p of
                    PNum m \<Rightarrow>
                      if m > 15 / 100 then [] else if m > 0 then []
                      else [''Operating at a loss or unable to calculate profitability'']
                  | PStr s \<Rightarrow> [''Operating at a loss or unable to calculate profitability'']),
             opportunities =
               (case margin_entry p of
                  PNum m \<Rightarrow>
                    if m > 15 / 100 then [] else if m > 0
                    then [''Opportunity to improve profit margins''] else []
                | PStr s \<Rightarrow> []),
             next_steps = take 3 (immediate_actions recs)\<rparr>)"

record data_quality =
  rows_processed :: nat
  columns_found :: "string list"
  completeness_score :: real

definition calculate_data_completeness :: "frame \<Rightarrow> real" where
  "calculate_data_completeness df =
     (let total_cells = length (rows df) * length (columns df);
          non_null_cells =
            sum_list (map (\<lambda>r. length (filter (\<lambda>c. r c \<noteq> Null) (columns df))) (rows df))
      in if total_cells > 0 then real non_null_cells / real total_cells * 100 else 0)"

text \<open>
  The report, without the entries that depend on the clock, on the name of the file and on
  the number of days between two dates (\<open>timestamp\<close>, \<open>file_processed\<close>, \<open>date_range\<close>).
\<close>

record report =
  quality :: data_quality
  cash_flow_section :: "string + cash_flow"
  profitability_section :: prof_section
  trend_analysis :: "string + trend"
  health_section :: health
  anomalies_section :: "string + anomaly_report"
  benchmark_analysis :: "(string \<times> comparison) list"
  ai_insights :: insights
  recommendations_section :: recommendations
  alerts_section :: alerts
  forecast_section :: "string + forecast_data"
  action_items :: "action_item list"
  summary :: executive_summary

text \<open>
  The body of the \<open>try\<close> block of \<open>process_financial_data\<close>: an exception raised by any
  step leaves the block.
\<close>

definition analysis_result ::
  "pandas \<Rightarrow> isolation_forest \<Rightarrow> nat \<Rightarrow> raw_table \<Rightarrow> string \<Rightarrow> string \<Rightarrow> pyerr + report" where
  "analysis_result pd fit_predict rng file user_industry business_size =
     and_then (FinancialData_init pd file) (\<lambda>df0.
     and_then (get_cash_flow df0) (\<lambda>(cash_flow, df1).
     and_then (get_profitability df1) (\<lambda>profitability.
     and_then (get_cash_flow_trend df1) (\<lambda>(cash_flow_trend, df2).
     and_then (get_financial_health_score df2) (\<lambda>(health_score, df3).
       let anomalies = detect_anomalies fit_predict rng df3;
           profitability_metrics =
             (case profitability of Inl e \<Rightarrow> Placeholder | Inr p \<Rightarrow> Computed p)
       in
     and_then (compare_to_industry df3 user_industry) (\<lambda>(benchmark_comparison, df4).
     and_then (generate_insights cash_flow profitability_metrics cash_flow_trend health_score)
       (\<lambda>ai.
     and_then (generate_recommendations cash_flow profitability_metrics cash_flow_trend
                 benchmark_comparison business_size) (\<lambda>recs.
     and_then (create_financial_alerts cash_flow profitability_metrics anomalies health_score)
       (\<lambda>al.
     and_then (generate_executive_summary health_score cash_flow profitability_metrics recs)
       (\<lambda>es.
       Inr \<lparr>quality = \<lparr>rows_processed = length (rows df4), columns_found = columns df4,
                        completeness_score = calculate_data_completeness df4\<rparr>,
            cash_flow_section = cash_flow,
            profitability_section = profitability_metrics,
            trend_analysis = cash_flow_trend,
            health_section = health_score,
            anomalies_section = anomalies,
            benchmark_analysis = benchmark_comparison,
            ai_insights = ai,
            recommendations_section = recs,
            alerts_section = al,
            forecast_section = generate_forecast cash_flow_trend,
            action_items = generate_action_items recs al,
            summary = es\<rparr>))))))))))"

text \<open>
  \<open>except Exception\<close>: every exception becomes the error response, which carries the
  type of the exception and no section of the report.
\<close>

datatype response = Report report | ErrorResponse pyerr

definition process_financial_data ::
  "pandas \<Rightarrow> isolation_forest \<Rightarrow> nat \<Rightarrow> raw_table \<Rightarrow> string \<Rightarrow> string \<Rightarrow> response" where
  "process_financial_data pd fit_predict rng file user_industry business_size =
     (case analysis_result pd fit_predict rng file user_industry business_size of
        Inl e \<Rightarrow> ErrorResponse e
      | Inr r \<Rightarrow> Report r)"

section \<open>Example tables\<close>

text \<open>Two rows with explicit income and expenses.\<close>

definition scenario_A :: frame where
  "scenario_A =
     \<lparr>columns = [''income'', ''expenses''],
      rows = [row_of [''income'', ''expenses''] [Num 5000, Num 0],
              row_of [''income'', ''expenses''] [Num 0, Num 1200]]\<rparr>"

definition scenario_A_cash_flow :: cash_flow where
  "scenario_A_cash_flow =
     \<lparr>net_cash_flow = 3800, total_income = 5000, total_expenses = 1200,
      cash_flow_ratio = Fin (5000 / 1200), expense_ratio = 1200 / 5000,
      monthly_average = 0, seasonal_analysis = []\<rparr>"

text \<open>One sale of 100 and a refund booked as a negative expense.\<close>

definition refund_frame :: frame where
  "refund_frame =
     \<lparr>columns = [''income'', ''expenses''],
      rows = [row_of [''income'', ''expenses''] [Num 100, Num (- 50)]]\<rparr>"

definition refund_cash_flow :: cash_flow where
  "refund_cash_flow =
     \<lparr>net_cash_flow = 150, total_income = 100, total_expenses = - 50,
      cash_flow_ratio = PInf, expense_ratio = - (1 / 2),
      monthly_average = 0, seasonal_analysis = []\<rparr>"

text \<open>A decoded file with one row: no income, expenses of 1200.\<close>

definition zero_revenue_file :: raw_table where
  "zero_revenue_file = \<lparr>header = [''Income'', ''Expenses''], body = [[Num 0, Num 1200]]\<rparr>"

text \<open>
  A stand-in for the parsing functions of pandas in the closed examples: it reads
  unsigned integers and leaves every other text unparsed, and it accepts a cell as a
  date only when it is a timestamp already.
\<close>

definition digits_only :: "string \<Rightarrow> real option" where
  "digits_only s =
     (if s \<noteq> [] \<and> list_all (\<lambda>c. c \<in> set ''0123456789'') s
      then Some (real (foldl (\<lambda>n c. 10 * n + (of_char c - 48)) 0 s)) else None)"

definition timestamps_only :: "cell \<Rightarrow> date option" where
  "timestamps_only c = (case c of Dt d \<Rightarrow> Some d | _ \<Rightarrow> None)"

definition plain_pandas :: pandas where
  "plain_pandas = \<lparr>to_numeric = digits_only, to_datetime = timestamps_only\<rparr>"

text \<open>Two rows with an amount and a category only.\<close>

definition scenario_B :: raw_table where
  "scenario_B =
     \<lparr>header = [''category'', ''amount''],
      body = [[Str ''Client Payment'', Num 5000], [Str ''Office Rent'', Num 1200]]\<rparr>"

definition scenario_B_rows :: "row list" where
  "scenario_B_rows = map (row_of [''category'', ''amount'']) (body scenario_B)"





text \<open>One row whose category holds an income keyword and an expense keyword.\<close>

definition double_match_file :: raw_table where
  "double_match_file = \<lparr>header = [''Category'', ''Amount''], body = [[Str ''Cost of Sales'', Num 300]]\<rparr>"

text \<open>
  The conditions that earn points in the health score, each as a predicate on the metric
  results; a failed metric satisfies none of them.
\<close>

definition positive_net :: "string + cash_flow \<Rightarrow> bool" where
  "positive_net cf = (case cf of Inl e \<Rightarrow> False | Inr c \<Rightarrow> net_cash_flow c > 0)"

definition ratio_above :: "real \<Rightarrow> string + cash_flow \<Rightarrow> bool" where
  "ratio_above x cf = (case cf of Inl e \<Rightarrow> False | Inr c \<Rightarrow> pf_gt (cash_flow_ratio c) x)"

definition margin_above :: "real \<Rightarrow> string + profitability \<Rightarrow> bool" where
  "margin_above x pr = (case pr of Inl e \<Rightarrow> False | Inr p \<Rightarrow> gross_profit_margin p > x)"

definition positive_slope :: "string + trend \<Rightarrow> bool" where
  "positive_slope tr = (case tr of Inl e \<Rightarrow> False | Inr t \<Rightarrow> trend_slope t > 0)"

definition r_squared_above :: "real \<Rightarrow> string + trend \<Rightarrow> bool" where
  "r_squared_above x tr = (case tr of Inl e \<Rightarrow> False | Inr t \<Rightarrow> r_squared t > x)"

definition volatility_below :: "real \<Rightarrow> string + cash_flow \<Rightarrow> string + trend \<Rightarrow> bool" where
  "volatility_below k cf tr =
     (case tr of Inl e \<Rightarrow> False | Inr t \<Rightarrow> volatility t < scale_of cf * k)"

text \<open>Two profitability results, with margins of 10 and of 20 per cent.\<close>

definition margin_10 :: profitability where
  "margin_10 = \<lparr>gross_profit = 100, gross_profit_margin = 1 / 10, revenue = 1000, costs = 900,
     profit_per_transaction = 50,
     break_even_analysis = Inl ''Insufficient data for break-even analysis'',
     profitability_trend = 0\<rparr>"

definition margin_20 :: profitability where
  "margin_20 = \<lparr>gross_profit = 200, gross_profit_margin = 2 / 10, revenue = 1000, costs = 800,
     profit_per_transaction = 100,
     break_even_analysis = Inl ''Insufficient data for break-even analysis'',
     profitability_trend = 0\<rparr>"

text \<open>
  Dated tables: two rows of January 2024, and one row in each of January and February
  2024, the later row first.
\<close>

definition january_frame :: frame where
  "january_frame =
     \<lparr>columns = [''date'', ''income'', ''expenses''],
      rows = [row_of [''date'', ''income'', ''expenses''] [Dt (Date 2024 1 1), Num 5000, Num 0],
              row_of [''date'', ''income'', ''expenses''] [Dt (Date 2024 1 2), Num 0, Num 1200]]\<rparr>"

definition two_month_frame :: frame where
  "two_month_frame =
     \<lparr>columns = [''date'', ''income'', ''expenses''],
      rows = [row_of [''date'', ''income'', ''expenses''] [Dt (Date 2024 2 15), Num 6000, Num 1400],
              row_of [''date'', ''income'', ''expenses''] [Dt (Date 2024 1 15), Num 5000, Num 1200]]\<rparr>"

text \<open>
  What scikit-learn promises of a seeded detector: with a \<open>random_state\<close> the labels do
  not depend on the state of the process-wide random generator.
\<close>

definition honours_seed :: "isolation_forest \<Rightarrow> bool" where
  "honours_seed fit_predict =
     (\<forall>c s g g' X. fit_predict c (Some s) g X = fit_predict c (Some s) g' X)"

text \<open>
  A stand-in detector for the closed examples: seeded, it flags the amounts beyond 1000;
  unseeded, its labels follow the state of the random generator.
\<close>

definition threshold_forest :: isolation_forest where
  "threshold_forest c seed g X =
     (case seed of
        Some s \<Rightarrow> map (\<lambda>x. if \<bar>x\<bar> > 1000 then - 1 else 1) X
      | None \<Rightarrow> map (\<lambda>x. if even g then - 1 else 1) X)"

text \<open>Ten amounts, one of them far from the others.\<close>

definition ten_row_frame :: frame where
  "ten_row_frame =
     \<lparr>columns = [''amount''],
      rows = map (\<lambda>x. row_of [''amount''] [Num x])
               [100, 120, 90, 110, 5000, 95, 105, 100, 115, 98]\<rparr>"




text \<open>A very large income against expenses of a thousandth of a cent.\<close>

definition overflow_frame :: frame where
  "overflow_frame =
     \<lparr>columns = [''income'', ''expenses''],
      rows = [row_of [''income'', ''expenses''] [Num (10 ^ 308), Num (1 / 10 ^ 5)]]\<rparr>"

section \<open>Properties\<close>

subsection \<open>Cash flow\<close>

lemma true_divide_in_range:
  assumes "y \<noteq> 0" and "\<bar>x / y\<bar> < float_overflow"
  shows "true_divide x y = Fin (x / y)"
proof -
  have "\<bar>x / y\<bar> < float_overflow \<longleftrightarrow> x / y < float_overflow \<and> - (x / y) < float_overflow"
    by (rule abs_less_iff)
  with assms(2) have "x / y < float_overflow" "- float_overflow < x / y"
    by linarith+
  with assms(1) show ?thesis by (simp add: true_divide_def)
qed

lemma scenario_A_ratio: "true_divide 5000 1200 = Fin (5000 / 1200)"
  by (rule true_divide_in_range) (simp_all add: float_overflow_def)

lemma get_cash_flow_scenario_A:
  "get_cash_flow scenario_A = Inr (Inr scenario_A_cash_flow, scenario_A)"
proof -
  have "has_col scenario_A ''income''" "has_col scenario_A ''expenses''"
    "series_sum ''income'' (rows scenario_A) = 5000"
    "series_sum ''expenses'' (rows scenario_A) = 1200"
    "get_monthly_cash_flow_average scenario_A = 0"
    "get_seasonal_patterns scenario_A = ([], scenario_A)"
    by (simp_all add: scenario_A_def has_col_def series_sum_def num_of_def row_of_def
        get_monthly_cash_flow_average_def get_seasonal_patterns_def)
  then show ?thesis
    by (simp add: get_cash_flow_def Let_def scenario_A_ratio scenario_A_cash_flow_def)
qed

lemma get_cash_flow_refund:
  "get_cash_flow refund_frame = Inr (Inr refund_cash_flow, refund_frame)"
  by (simp add: get_cash_flow_def Let_def refund_frame_def refund_cash_flow_def has_col_def
      series_sum_def num_of_def row_of_def get_monthly_cash_flow_average_def
      get_seasonal_patterns_def)

lemma overflow_ratio: "true_divide (10 ^ 308) (1 / 10 ^ 5) = PInf"
  by (simp add: true_divide_def float_overflow_def)

lemma get_cash_flow_positive_expenses:
  assumes "has_col df ''income''" and "has_col df ''expenses''"
    and "series_sum ''expenses'' (rows df) > 0"
  shows "\<exists>c. get_cash_flow df = Inr (Inr c, snd (get_seasonal_patterns df))
           \<and> total_income c = series_sum ''income'' (rows df)
           \<and> total_expenses c = series_sum ''expenses'' (rows df)
           \<and> cash_flow_ratio c
               = true_divide (series_sum ''income'' (rows df)) (series_sum ''expenses'' (rows df))"
  using assms by (simp add: get_cash_flow_def Let_def)

lemma get_cash_flow_overflow:
  "\<exists>c. get_cash_flow overflow_frame = Inr (Inr c, overflow_frame)
       \<and> total_income c = 10 ^ 308 \<and> total_expenses c = 1 / 10 ^ 5
       \<and> cash_flow_ratio c = PInf"
proof -
  have h: "has_col overflow_frame ''income''" "has_col overflow_frame ''expenses''"
    by (simp_all add: overflow_frame_def has_col_def)
  have i: "series_sum ''income'' (rows overflow_frame) = 10 ^ 308"
    and e: "series_sum ''expenses'' (rows overflow_frame) = 1 / 10 ^ 5"
    and s: "snd (get_seasonal_patterns overflow_frame) = overflow_frame"
    by (simp_all add: overflow_frame_def has_col_def series_sum_def num_of_def row_of_def
        get_seasonal_patterns_def)
  have p: "series_sum ''expenses'' (rows overflow_frame) > 0"
    unfolding e by simp
  from get_cash_flow_positive_expenses [OF h p] show ?thesis
    unfolding i e s overflow_ratio by blast
qed



















text \<open>
  C5, as the code has it. In a populated result of \<open>get_cash_flow\<close> the ratio is the
  infinity sentinel whenever \<open>total_expenses\<close> is not greater than 0, whatever
  \<open>total_income\<close> is. When \<open>total_expenses\<close> is greater than 0 the ratio is the float
  quotient \<open>total_income / total_expenses\<close>, which is infinite itself when it overflows.
  So the ratio is the positive infinity exactly when \<open>total_expenses\<close> is not greater
  than 0 or the float quotient is the positive infinity; with the finite totals of this
  model, exactly when \<open>total_expenses\<close> is not positive or the quotient reaches the
  overflow threshold.
\<close>

theorem cash_flow_ratio_sentinel:
  assumes "get_cash_flow df = Inr (Inr c, df')"
  shows "(\<not> total_expenses c > 0 \<longrightarrow> cash_flow_ratio c = PInf)
       \<and> (total_expenses c > 0
            \<longrightarrow> cash_flow_ratio c = true_divide (total_income c) (total_expenses c))
       \<and> (cash_flow_ratio c = PInf
            \<longleftrightarrow> \<not> total_expenses c > 0
                \<or> true_divide (total_income c) (total_expenses c) = PInf)
       \<and> (cash_flow_ratio c = PInf
            \<longleftrightarrow> total_expenses c \<le> 0
                \<or> total_income c / total_expenses c \<ge> float_overflow)"
  using assms
  by (auto simp: get_cash_flow_def Let_def true_divide_def split: if_splits)

theorem cash_flow_ratio_sentinel_witness:
  "get_cash_flow scenario_A = Inr (Inr scenario_A_cash_flow, scenario_A)
   \<and> total_expenses scenario_A_cash_flow > 0
   \<and> cash_flow_ratio scenario_A_cash_flow = Fin (5000 / 1200)
   \<and> get_cash_flow refund_frame = Inr (Inr refund_cash_flow, refund_frame)
   \<and> \<not> total_expenses refund_cash_flow > 0
   \<and> cash_flow_ratio refund_cash_flow = PInf
   \<and> (\<exists>c. get_cash_flow overflow_frame = Inr (Inr c, overflow_frame)
          \<and> total_expenses c > 0
          \<and> total_income c / total_expenses c \<ge> float_overflow
          \<and> cash_flow_ratio c = PInf)"
proof -
  note a = cash_flow_ratio_sentinel [OF get_cash_flow_scenario_A]
  note r = cash_flow_ratio_sentinel [OF get_cash_flow_refund]
  from get_cash_flow_overflow obtain c where
    c: "get_cash_flow overflow_frame = Inr (Inr c, overflow_frame)"
       "total_income c = 10 ^ 308" "total_expenses c = 1 / 10 ^ 5" "cash_flow_ratio c = PInf"
    by blast
  have p: "total_expenses c > 0" by (simp add: c)
  from cash_flow_ratio_sentinel [OF c(1)] c(4) p
  have o: "total_income c / total_expenses c \<ge> float_overflow" by auto
  have s: "total_expenses scenario_A_cash_flow > 0"
    "cash_flow_ratio scenario_A_cash_flow = Fin (5000 / 1200)"
    by (simp_all add: scenario_A_cash_flow_def)
  have f: "\<not> total_expenses refund_cash_flow > 0" "cash_flow_ratio refund_cash_flow = PInf"
    by (simp_all add: refund_cash_flow_def)
  from a r get_cash_flow_scenario_A get_cash_flow_refund s f c(1,4) p o show ?thesis
    by blast
qed

text \<open>
  C5 as the specification words it fails on a table with negative expenses: the ratio is
  the sentinel although \<open>total_expenses\<close> is not 0, and it is not the quotient.
\<close>

theorem cash_flow_ratio_counterexample:
  "get_cash_flow refund_frame = Inr (Inr refund_cash_flow, refund_frame)
   \<and> cash_flow_ratio refund_cash_flow = PInf
   \<and> \<not> (total_expenses refund_cash_flow = 0 \<and> total_income refund_cash_flow > 0)
   \<and> cash_flow_ratio refund_cash_flow
       \<noteq> Fin (total_income refund_cash_flow / total_expenses refund_cash_flow)"
  by (simp add: get_cash_flow_refund) (simp add: refund_cash_flow_def)

subsection \<open>A failed profitability section\<close>

lemma zero_revenue_names:
  "standardize_columns (clean_names (header zero_revenue_file)) = [''revenue'', ''expenses'']"
  by (simp add: zero_revenue_file_def standardize_columns_def clean_names_def
      standardize_one_def column_mapping_def str_lower_def lower_char_def str_strip_def
      is_space_def replace_space_def)

lemma zero_revenue_init:
  "\<exists>df. FinancialData_init pd zero_revenue_file = Inr df
        \<and> columns df = [''revenue'', ''expenses'', ''income'']
        \<and> series_sum ''revenue'' (rows df) = 0"
  apply (simp add: FinancialData_init_def zero_revenue_names Let_def)
  apply (simp add: zero_revenue_file_def ensure_income_expenses_def has_col_def
      assign_column_def clean_data_def coerced_rows_def numerical_cols_def dropna_def
      coerce_row_def coerce_numeric_def row_of_def series_sum_def num_of_def)
  done

text \<open>
  The first rule set that reads the placeholder compares the text \<open>N/A\<close> with a float.
\<close>

lemma generate_insights_placeholder: "generate_insights cf Placeholder tr h = Inl TypeError"
  by (simp add: generate_insights_def analyze_profitability_def and_then_def py_gt_def
      margin_entry_def)

lemma create_financial_alerts_placeholder:
  "create_financial_alerts cf Placeholder an h = Inl TypeError"
  by (simp add: create_financial_alerts_def and_then_def py_lt_def margin_entry_def)

text \<open>No report ever carries the placeholder: the run has left the \<open>try\<close> block before.\<close>

lemma no_report_with_placeholder:
  "analysis_result pd fit_predict rng file industry business_size = Inr r
     \<Longrightarrow> profitability_section r \<noteq> Placeholder"
  by (auto simp: analysis_result_def and_then_def Let_def generate_insights_placeholder
      split: sum.splits prod.splits)

lemma undated_zero_revenue_steps:
  assumes c: "columns df = [''revenue'', ''expenses'', ''income'']"
    and r: "series_sum ''revenue'' (rows df) = 0"
  shows "\<exists>c. get_cash_flow df = Inr (Inr c, df)"
    and "get_profitability df = Inr (Inl ''No revenue data found'')"
    and "get_cash_flow_trend df = Inr (Inl ''Date column required for trend analysis'', df)"
    and "\<exists>h. get_financial_health_score df = Inr (h, df)"
    and "\<exists>cmp. compare_to_industry df industry = Inr (cmp, df)"
proof -
  show 1: "\<exists>c. get_cash_flow df = Inr (Inr c, df)"
    by (simp add: get_cash_flow_def has_col_def c get_seasonal_patterns_def Let_def)
  show 2: "get_profitability df = Inr (Inl ''No revenue data found'')"
    by (simp add: get_profitability_def get_total_revenue_def get_total_costs_def
        has_col_def c r)
  show 3: "get_cash_flow_trend df = Inr (Inl ''Date column required for trend analysis'', df)"
    by (simp add: get_cash_flow_trend_def has_col_def c)
  from 1 obtain cf where cf: "get_cash_flow df = Inr (Inr cf, df)" by blast
  show "\<exists>h. get_financial_health_score df = Inr (h, df)"
    by (simp add: get_financial_health_score_def cf 2 3)
  show "\<exists>cmp. compare_to_industry df industry = Inr (cmp, df)"
    by (simp add: compare_to_industry_def cf 2 Let_def)
qed

text \<open>
  C1, evaluated on a file whose revenue is 0. Cash flow, trend, health score and
  benchmark comparison are computed and profitability returns its no-revenue error, but
  \<open>process_financial_data\<close> does not return a report with a placeholder section: the
  placeholder makes \<open>generate_insights\<close> raise TypeError and the answer is the error
  response, for every library and every state of the random generator.
\<close>

theorem zero_revenue_aborts_report:
  "process_financial_data pd fit_predict rng zero_revenue_file ''default'' ''small''
     = ErrorResponse TypeError"
proof -
  obtain df where i: "FinancialData_init pd zero_revenue_file = Inr df"
    and c: "columns df = [''revenue'', ''expenses'', ''income'']"
    and r: "series_sum ''revenue'' (rows df) = 0"
    using zero_revenue_init [of pd] by blast
  from undated_zero_revenue_steps [OF c r] obtain cf h cmp where
    s: "get_cash_flow df = Inr (Inr cf, df)"
       "get_profitability df = Inr (Inl ''No revenue data found'')"
       "get_cash_flow_trend df = Inr (Inl ''Date column required for trend analysis'', df)"
       "get_financial_health_score df = Inr (h, df)"
       "compare_to_industry df ''default'' = Inr (cmp, df)"
    by blast
  show ?thesis
    by (simp add: process_financial_data_def analysis_result_def and_then_def i s Let_def
        generate_insights_placeholder)
qed

subsection \<open>Normalization\<close>

lemma scenario_B_names:
  "standardize_columns (clean_names (header scenario_B)) = [''category'', ''amount'']"
  by (simp add: scenario_B_def standardize_columns_def clean_names_def standardize_one_def
      column_mapping_def str_lower_def lower_char_def str_strip_def is_space_def
      replace_space_def)

text \<open>
  Neither category holds an income keyword; \<open>Client Payment\<close> holds the expense keyword
  \<open>payment\<close>.
\<close>

lemma scenario_B_masks:
  "map (\<lambda>r. keyword_mask income_keywords (r ''category'')) scenario_B_rows = [False, False]"
  "map (\<lambda>r. keyword_mask expense_keywords (r ''category'')) scenario_B_rows = [True, False]"
  by (simp_all add: scenario_B_rows_def scenario_B_def row_of_def keyword_mask_def
      income_keywords_def expense_keywords_def str_lower_def lower_char_def)











subsection \<open>Derived income and expenses: one row in both totals\<close>

lemma series_sum_append: "series_sum c (xs @ ys) = series_sum c xs + series_sum c ys"
  by (simp add: series_sum_def)

lemma series_sum_single: "series_sum c [r] = num_of (r c)"
  by (simp add: series_sum_def)

lemma has_col_frame: "has_col \<lparr>columns = cs, rows = rs\<rparr> = (\<lambda>c. c \<in> set cs)"
  by (simp add: fun_eq_iff has_col_def)

lemma clean_data_append:
  "rows (clean_data pd \<lparr>columns = cs, rows = xs @ ys\<rparr>)
     = rows (clean_data pd \<lparr>columns = cs, rows = xs\<rparr>) @ rows (clean_data pd \<lparr>columns = cs, rows = ys\<rparr>)"
  by (simp add: clean_data_def coerced_rows_def dropna_def has_col_frame)

lemma length_clean_data: "length (rows (clean_data pd df)) \<le> length (rows df)"
proof -
  have "length (rows (clean_data pd df)) \<le> length (coerced_rows pd df)"
    by (simp add: clean_data_def dropna_def)
  also have "\<dots> \<le> length (rows df)"
    by (simp add: coerced_rows_def dropna_def)
  finally show ?thesis .
qed

lemma columns_clean_data: "columns (clean_data pd df) = columns df"
  by (simp add: clean_data_def)

lemma ensure_derives_both:
  assumes "''amount'' \<in> set names" "''category'' \<in> set names"
    and "''income'' \<notin> set names" "''revenue'' \<notin> set names" "''expenses'' \<notin> set names"
    and "str_accessor_ok ''category'' rs"
  shows "ensure_income_expenses \<lparr>columns = names, rows = rs\<rparr>
     = Inr \<lparr>columns = names @ [''income'', ''expenses''],
            rows = map (\<lambda>r. r(''income'' := if keyword_mask income_keywords (r ''category'') then r ''amount'' else Null,
                              ''expenses'' := if keyword_mask expense_keywords (r ''category'') then r ''amount'' else Null)) rs\<rparr>"
proof -
  have ok: "str_accessor_ok ''category'' (map (\<lambda>r. r(''income'' := f r)) rs)" for f
    using assms(6) by (auto simp: str_accessor_ok_def list_ex_iff)
  show ?thesis
    using assms ok
    by (simp add: ensure_income_expenses_def has_col_def derive_masked_def assign_column_def Let_def o_def)
qed

lemma clean_derived_row:
  assumes "''amount'' \<in> set names" "''revenue'' \<notin> set names"
    and "keyword_mask income_keywords (r ''category'')"
    and "keyword_mask expense_keywords (r ''category'')"
    and "coerce_numeric pd (r ''amount'') = Num a"
    and "''date'' \<in> set names \<longrightarrow> parse_date_cell pd (r ''date'') \<noteq> Null"
  shows "\<exists>r'. rows (clean_data pd \<lparr>columns = names @ [''income'', ''expenses''],
            rows = [r(''income'' := if keyword_mask income_keywords (r ''category'') then r ''amount'' else Null,
                      ''expenses'' := if keyword_mask expense_keywords (r ''category'') then r ''amount'' else Null)]\<rparr>) = [r']
         \<and> r' ''amount'' = Num a \<and> r' ''income'' = Num a \<and> r' ''expenses'' = Num a"
  using assms
  by (auto simp: clean_data_def coerced_rows_def dropna_def has_col_frame numerical_cols_def coerce_row_def)

lemma get_cash_flow_direct:
  assumes "has_col df ''income''" and "has_col df ''expenses''"
  shows "\<exists>c. get_cash_flow df = Inr (Inr c, snd (get_seasonal_patterns df))
           \<and> total_income c = series_sum ''income'' (rows df)
           \<and> total_expenses c = series_sum ''expenses'' (rows df)"
  using assms by (simp add: get_cash_flow_def Let_def)

text \<open>The second strategy of \<open>get_cash_flow\<close> applies both masks to the same rows.\<close>

lemma masked_sum_double_count:
  assumes "keyword_mask income_keywords (r ''category'')"
    and "keyword_mask expense_keywords (r ''category'')"
  shows "masked_sum income_keywords (xs @ [r] @ ys)
           = masked_sum income_keywords xs + num_of (r ''amount'') + masked_sum income_keywords ys"
    and "masked_sum expense_keywords (xs @ [r] @ ys)
           = masked_sum expense_keywords xs + num_of (r ''amount'') + masked_sum expense_keywords ys"
  using assms by (simp_all add: masked_sum_def series_sum_def)

text \<open>
  C10. Take a file whose columns, once standardized, hold \<open>amount\<close> and \<open>category\<close> and
  none of \<open>income\<close>, \<open>revenue\<close> and \<open>expenses\<close>, and a row of it whose category text
  matches an income keyword and an expense keyword, whose amount coerces to the number
  \<open>a\<close> and whose date, if there is a date column, parses. Then the row survives
  normalization with \<open>a\<close> in its \<open>income\<close> and in its \<open>expenses\<close> cell, and
  \<open>get_cash_flow\<close> counts \<open>a\<close> in \<open>total_income\<close> and in \<open>total_expenses\<close>: each total
  is \<open>a\<close> plus the sum over the rows that survive before and after it.
\<close>

theorem derived_masks_double_count:
  assumes names: "names = standardize_columns (clean_names (header file))"
    and d: "distinct names"
    and cols: "''amount'' \<in> set names" "''category'' \<in> set names"
      "''income'' \<notin> set names" "''revenue'' \<notin> set names" "''expenses'' \<notin> set names"
    and body: "body file = before @ [cells] @ after"
    and cat: "row_of names cells ''category'' = Str s"
    and mi: "keyword_mask income_keywords (Str s)"
    and me: "keyword_mask expense_keywords (Str s)"
    and amt: "coerce_numeric pd (row_of names cells ''amount'') = Num a"
    and dt: "''date'' \<in> set names \<longrightarrow> parse_date_cell pd (row_of names cells ''date'') \<noteq> Null"
  shows "\<exists>df pre r' post c df'.
           FinancialData_init pd file = Inr df
         \<and> rows df = pre @ [r'] @ post
         \<and> length pre \<le> length before \<and> length post \<le> length after
         \<and> r' ''amount'' = Num a \<and> r' ''income'' = Num a \<and> r' ''expenses'' = Num a
         \<and> get_cash_flow df = Inr (Inr c, df')
         \<and> total_income c = series_sum ''income'' pre + a + series_sum ''income'' post
         \<and> total_expenses c = series_sum ''expenses'' pre + a + series_sum ''expenses'' post"
proof -
  let ?D = "\<lambda>r. r(''income'' := if keyword_mask income_keywords (r ''category'') then r ''amount'' else Null,
                   ''expenses'' := if keyword_mask expense_keywords (r ''category'') then r ''amount'' else Null)"
  let ?cs = "names @ [''income'', ''expenses'']"
  let ?r = "row_of names cells"
  let ?rs = "map (row_of names) (body file)"
  let ?pre = "rows (clean_data pd \<lparr>columns = ?cs, rows = map ?D (map (row_of names) before)\<rparr>)"
  let ?post = "rows (clean_data pd \<lparr>columns = ?cs, rows = map ?D (map (row_of names) after)\<rparr>)"
  let ?df = "clean_data pd \<lparr>columns = ?cs, rows = map ?D ?rs\<rparr>"
  have ok: "str_accessor_ok ''category'' ?rs"
    by (simp add: str_accessor_ok_def body cat)
  have ens: "ensure_income_expenses \<lparr>columns = names, rows = ?rs\<rparr>
               = Inr \<lparr>columns = ?cs, rows = map ?D ?rs\<rparr>"
    by (rule ensure_derives_both [OF cols ok])
  have init: "FinancialData_init pd file = Inr ?df"
    using d by (simp add: FinancialData_init_def Let_def names [symmetric] ens)
  from clean_derived_row [of names ?r pd a] cols cat mi me amt dt
  obtain r' where mid: "rows (clean_data pd \<lparr>columns = ?cs, rows = [?D ?r]\<rparr>) = [r']"
    and r': "r' ''amount'' = Num a" "r' ''income'' = Num a" "r' ''expenses'' = Num a"
    by auto
  have split: "rows ?df = ?pre @ [r'] @ ?post"
  proof -
    have "map ?D ?rs = map ?D (map (row_of names) before) @ ([?D ?r] @ map ?D (map (row_of names) after))"
      by (simp add: body)
    then show ?thesis
      by (simp only: clean_data_append mid)
  qed
  have h: "has_col ?df ''income''" "has_col ?df ''expenses''"
    by (simp_all add: has_col_def columns_clean_data)
  from get_cash_flow_direct [OF h] obtain c where
    c: "get_cash_flow ?df = Inr (Inr c, snd (get_seasonal_patterns ?df))"
       "total_income c = series_sum ''income'' (rows ?df)"
       "total_expenses c = series_sum ''expenses'' (rows ?df)"
    by blast
  have ti: "total_income c = series_sum ''income'' ?pre + a + series_sum ''income'' ?post"
    unfolding c(2) split series_sum_append series_sum_single r' by (simp add: num_of_def)
  have te: "total_expenses c = series_sum ''expenses'' ?pre + a + series_sum ''expenses'' ?post"
    unfolding c(3) split series_sum_append series_sum_single r' by (simp add: num_of_def)
  have len: "length ?pre \<le> length before" "length ?post \<le> length after"
    using length_clean_data [of pd "\<lparr>columns = ?cs, rows = map ?D (map (row_of names) before)\<rparr>"]
      length_clean_data [of pd "\<lparr>columns = ?cs, rows = map ?D (map (row_of names) after)\<rparr>"]
    by simp_all
  from init split len r' c(1) ti te show ?thesis by blast
qed

lemma double_match_names:
  "standardize_columns (clean_names (header double_match_file)) = [''category'', ''amount'']"
  by (simp add: double_match_file_def standardize_columns_def clean_names_def
      standardize_one_def column_mapping_def str_lower_def lower_char_def str_strip_def
      is_space_def replace_space_def)

theorem derived_masks_double_count_witness:
  "\<exists>df c df'. FinancialData_init plain_pandas double_match_file = Inr df
      \<and> get_cash_flow df = Inr (Inr c, df')
      \<and> total_income c = 300 \<and> total_expenses c = 300"
proof -
  have mi: "keyword_mask income_keywords (Str ''Cost of Sales'')"
    by (simp add: keyword_mask_def income_keywords_def str_lower_def lower_char_def)
  have me: "keyword_mask expense_keywords (Str ''Cost of Sales'')"
    by (simp add: keyword_mask_def expense_keywords_def str_lower_def lower_char_def)
  have "\<exists>df pre r' post c df'.
           FinancialData_init plain_pandas double_match_file = Inr df
         \<and> rows df = pre @ [r'] @ post
         \<and> length pre \<le> length ([] :: cell list list) \<and> length post \<le> length ([] :: cell list list)
         \<and> r' ''amount'' = Num 300 \<and> r' ''income'' = Num 300 \<and> r' ''expenses'' = Num 300
         \<and> get_cash_flow df = Inr (Inr c, df')
         \<and> total_income c = series_sum ''income'' pre + 300 + series_sum ''income'' post
         \<and> total_expenses c = series_sum ''expenses'' pre + 300 + series_sum ''expenses'' post"
    by (rule derived_masks_double_count
          [where names = "[''category'', ''amount'']" and s = "''Cost of Sales''"
             and cells = "[Str ''Cost of Sales'', Num 300]", OF _ _ _ _ _ _ _ _ _ mi me])
       (simp_all add: double_match_names, simp_all add: double_match_file_def row_of_def coerce_numeric_def)
  then show ?thesis
    by (auto simp: series_sum_def)
qed

subsection \<open>Health score\<close>

text \<open>Each block of the score, read off the conditions.\<close>

lemma cash_points_conditions:
  "cash_points cf = (if positive_net cf then 20 + (if ratio_above (12 / 10) cf then 10 else 0) else 0)"
  by (simp add: cash_points_def positive_net_def ratio_above_def split: sum.splits)

lemma margin_points_conditions:
  "margin_points pr = (if margin_above (3 / 10) pr then 30 else if margin_above (15 / 100) pr then 20
                       else if margin_above (5 / 100) pr then 10 else 0)"
  by (simp add: margin_points_def margin_above_def split: sum.splits)

lemma trend_points_conditions:
  "trend_points tr = (if positive_slope tr then 15 + (if r_squared_above (7 / 10) tr then 10 else 0) else 0)"
  by (simp add: trend_points_def positive_slope_def r_squared_above_def split: sum.splits)

lemma consistency_points_conditions:
  "consistency_points cf tr = (if volatility_below (1 / 10) cf tr then 15
                               else if volatility_below (2 / 10) cf tr then 10 else 0)"
  by (simp add: consistency_points_def volatility_below_def split: sum.splits)

lemma points_ranges:
  "0 \<le> cash_points cf" "cash_points cf \<le> 30"
  "0 \<le> margin_points pr" "margin_points pr \<le> 30"
  "0 \<le> trend_points tr" "trend_points tr \<le> 25"
  "0 \<le> consistency_points cf tr" "consistency_points cf tr \<le> 15"
  by (simp_all add: cash_points_conditions margin_points_conditions trend_points_conditions
      consistency_points_conditions)

lemma health_of_range: "0 \<le> health_score (health_of cf pr tr) \<and> health_score (health_of cf pr tr) \<le> 100"
  using points_ranges(1) [of cf] points_ranges(3) [of pr] points_ranges(5) [of tr]
    points_ranges(7) [of cf tr]
  by (simp add: health_of_def Let_def)

lemma health_score_is_health_of:
  "get_financial_health_score df = Inr (h, df') \<Longrightarrow> \<exists>cf pr tr. h = health_of cf pr tr"
  by (auto simp: get_financial_health_score_def split: sum.splits prod.splits)

text \<open>
  C6. A health score that \<open>get_financial_health_score\<close> returns lies between 0 and 100.
  The score is monotone in the scoring conditions (positive net cash flow, cash-flow
  ratio above 1.2, margin above 0.3, 0.15 and 0.05, positive slope, R squared above 0.7,
  volatility below 10 and 20 per cent of the scale): when every condition that holds of
  one triple of metric results holds of another, the score of the first is at most the
  score of the second; making one more condition hold never lowers the score.
\<close>

theorem health_score_bounded_monotone:
  "(get_financial_health_score df = Inr (h, df') \<longrightarrow> 0 \<le> health_score h \<and> health_score h \<le> 100)
   \<and> ((positive_net cf \<longrightarrow> positive_net cf')
        \<and> (ratio_above (12 / 10) cf \<longrightarrow> ratio_above (12 / 10) cf')
        \<and> (margin_above (3 / 10) pr \<longrightarrow> margin_above (3 / 10) pr')
        \<and> (margin_above (15 / 100) pr \<longrightarrow> margin_above (15 / 100) pr')
        \<and> (margin_above (5 / 100) pr \<longrightarrow> margin_above (5 / 100) pr')
        \<and> (positive_slope tr \<longrightarrow> positive_slope tr')
        \<and> (r_squared_above (7 / 10) tr \<longrightarrow> r_squared_above (7 / 10) tr')
        \<and> (volatility_below (1 / 10) cf tr \<longrightarrow> volatility_below (1 / 10) cf' tr')
        \<and> (volatility_below (2 / 10) cf tr \<longrightarrow> volatility_below (2 / 10) cf' tr')
      \<longrightarrow> health_score (health_of cf pr tr) \<le> health_score (health_of cf' pr' tr'))"
proof (intro conjI impI)
  assume "get_financial_health_score df = Inr (h, df')"
  then obtain a b c where "h = health_of a b c"
    using health_score_is_health_of by blast
  then show "0 \<le> health_score h" "health_score h \<le> 100"
    using health_of_range [of a b c] by simp_all
next
  assume a: "(positive_net cf \<longrightarrow> positive_net cf')
        \<and> (ratio_above (12 / 10) cf \<longrightarrow> ratio_above (12 / 10) cf')
        \<and> (margin_above (3 / 10) pr \<longrightarrow> margin_above (3 / 10) pr')
        \<and> (margin_above (15 / 100) pr \<longrightarrow> margin_above (15 / 100) pr')
        \<and> (margin_above (5 / 100) pr \<longrightarrow> margin_above (5 / 100) pr')
        \<and> (positive_slope tr \<longrightarrow> positive_slope tr')
        \<and> (r_squared_above (7 / 10) tr \<longrightarrow> r_squared_above (7 / 10) tr')
        \<and> (volatility_below (1 / 10) cf tr \<longrightarrow> volatility_below (1 / 10) cf' tr')
        \<and> (volatility_below (2 / 10) cf tr \<longrightarrow> volatility_below (2 / 10) cf' tr')"
  have 1: "cash_points cf \<le> cash_points cf'"
    using a by (simp add: cash_points_conditions)
  have 2: "margin_points pr \<le> margin_points pr'"
    using a by (simp add: margin_points_conditions)
  have 3: "trend_points tr \<le> trend_points tr'"
    using a by (simp add: trend_points_conditions)
  have 4: "consistency_points cf tr \<le> consistency_points cf' tr'"
    using a by (simp add: consistency_points_conditions)
  from 1 2 3 4 show "health_score (health_of cf pr tr) \<le> health_score (health_of cf' pr' tr')"
    by (simp add: health_of_def Let_def)
qed

lemma get_profitability_margin:
  assumes "get_total_revenue df = Inr rv" and "get_total_costs df = Inr (PNum cst)"
    and "rv > 0" and "get_profitability_trend df = Inr t"
  shows "\<exists>p. get_profitability df = Inr (Inr p) \<and> gross_profit_margin p = (rv - cst) / rv"
  using assms by (simp add: get_profitability_def)

lemma scenario_A_profitability:
  "\<exists>p. get_profitability scenario_A = Inr (Inr p) \<and> gross_profit_margin p = 19 / 25"
proof -
  have "\<exists>p. get_profitability scenario_A = Inr (Inr p) \<and> gross_profit_margin p = (5000 - 1200) / 5000"
    by (rule get_profitability_margin [where t = 0])
       (simp_all add: get_total_revenue_def get_total_costs_def get_profitability_trend_def
         scenario_A_def has_col_def series_sum_def num_of_def row_of_def)
  then show ?thesis by simp
qed

lemma scenario_A_health:
  "\<exists>h. get_financial_health_score scenario_A = Inr (h, scenario_A) \<and> health_score h = 60"
proof -
  from scenario_A_profitability obtain p where
    p: "get_profitability scenario_A = Inr (Inr p)" "gross_profit_margin p = 19 / 25" by blast
  have t: "get_cash_flow_trend scenario_A
             = Inr (Inl ''Date column required for trend analysis'', scenario_A)"
    by (simp add: get_cash_flow_trend_def has_col_def scenario_A_def)
  show ?thesis
    by (simp add: get_financial_health_score_def get_cash_flow_scenario_A p t health_of_def
        cash_points_def margin_points_def trend_points_def consistency_points_def
        scenario_A_cash_flow_def pf_gt_def)
qed

theorem health_score_bounded_monotone_witness:
  "(\<exists>h. get_financial_health_score scenario_A = Inr (h, scenario_A)
        \<and> health_score h = 60 \<and> 0 \<le> health_score h \<and> health_score h \<le> 100)
   \<and> margin_above (5 / 100) (Inr margin_10) \<and> \<not> margin_above (15 / 100) (Inr margin_10)
   \<and> margin_above (15 / 100) (Inr margin_20)
   \<and> health_score (health_of (Inr scenario_A_cash_flow) (Inr margin_10) (Inl ''none'')) = 40
   \<and> health_score (health_of (Inr scenario_A_cash_flow) (Inr margin_20) (Inl ''none'')) = 50
   \<and> health_score (health_of (Inr scenario_A_cash_flow) (Inr margin_10) (Inl ''none''))
       \<le> health_score (health_of (Inr scenario_A_cash_flow) (Inr margin_20) (Inl ''none''))"
proof -
  from scenario_A_health obtain h where
    h: "get_financial_health_score scenario_A = Inr (h, scenario_A)" "health_score h = 60"
    by blast
  have m: "margin_above (5 / 100) (Inr margin_10)" "\<not> margin_above (15 / 100) (Inr margin_10)"
    "\<not> margin_above (3 / 10) (Inr margin_10)"
    "margin_above (15 / 100) (Inr margin_20)" "margin_above (5 / 100) (Inr margin_20)"
    by (simp_all add: margin_above_def margin_10_def margin_20_def)
  note t = health_score_bounded_monotone
    [of scenario_A h scenario_A "Inr scenario_A_cash_flow" "Inr scenario_A_cash_flow"
        "Inr margin_10" "Inr margin_20" "Inl ''none''" "Inl ''none''"]
  have le: "health_score (health_of (Inr scenario_A_cash_flow) (Inr margin_10) (Inl ''none''))
       \<le> health_score (health_of (Inr scenario_A_cash_flow) (Inr margin_20) (Inl ''none''))"
    using t m by simp
  have b: "0 \<le> health_score h \<and> health_score h \<le> 100"
    using t h by simp
  have v: "health_score (health_of (Inr scenario_A_cash_flow) (Inr margin_10) (Inl ''none'')) = 40"
    "health_score (health_of (Inr scenario_A_cash_flow) (Inr margin_20) (Inl ''none'')) = 50"
    by (simp_all add: health_of_def cash_points_def margin_points_def trend_points_def
        consistency_points_def scenario_A_cash_flow_def pf_gt_def margin_10_def margin_20_def)
  from h b m le v show ?thesis by blast
qed

subsection \<open>Trend\<close>

lemma mset_sort_values_date: "mset (sort_values_date rs) = mset rs"
  by (simp add: sort_values_date_def)

lemma set_sort_values_date: "set (sort_values_date rs) = set rs"
  by (metis mset_sort_values_date set_mset_mset)

lemma months_sort_values_date:
  "set (List.map_filter row_month (sort_values_date rs)) = set (List.map_filter row_month rs)"
  by (simp add: map_filter_def set_sort_values_date)

lemma fold_min_const: "set ks \<subseteq> {k} \<Longrightarrow> fold min ks (k :: int) = k"
  by (induction ks) auto

lemma fold_max_const: "set ks \<subseteq> {k} \<Longrightarrow> fold max ks (k :: int) = k"
  by (induction ks) auto

lemma single_month_buckets:
  assumes "card (set (List.map_filter row_month rs)) < 2"
  shows "length (resample_months rs) < 2"
proof (cases "List.map_filter row_month rs")
  case Nil
  then show ?thesis by (simp add: resample_months_def)
next
  case (Cons k ks)
  have "set ks \<subseteq> {k}"
  proof
    fix x assume x: "x \<in> set ks"
    show "x \<in> {k}"
    proof (rule ccontr)
      assume "x \<notin> {k}"
      then have "{k, x} \<subseteq> set (k # ks)" "card {k, x} = 2" using x by auto
      then have "2 \<le> card (set (k # ks))"
        by (metis card_mono List.finite_set)
      with assms Cons show False by simp
    qed
  qed
  then show ?thesis
    by (simp add: resample_months_def Cons fold_min_const fold_max_const)
qed

lemma length_monthly_rows:
  "length (m_rows (create_monthly_aggregations df)) \<le> length (resample_months (rows df))"
  by (simp add: create_monthly_aggregations_def Let_def)

text \<open>
  C7. Without a \<open>date\<close> column \<open>get_cash_flow_trend\<close> returns the missing-date error.
  With a \<open>date\<close> column and rows that lie in fewer than two calendar months it returns
  the insufficient-data error (and leaves the rows sorted). When it returns a trend,
  \<open>current_trajectory\<close> is \<open>improving\<close> exactly when the slope is positive and
  \<open>declining\<close> exactly when it is not.
\<close>

theorem trend_preconditions:
  "(\<not> has_col df ''date'' \<longrightarrow>
      get_cash_flow_trend df = Inr (Inl ''Date column required for trend analysis'', df))
   \<and> (has_col df ''date'' \<and> card (set (List.map_filter row_month (rows df))) < 2 \<longrightarrow>
        get_cash_flow_trend df
          = Inr (Inl ''Insufficient data for trend analysis'',
                 df\<lparr>rows := sort_values_date (rows df)\<rparr>))
   \<and> (get_cash_flow_trend df = Inr (Inr t, df') \<longrightarrow>
        (current_trajectory t = ''improving'' \<longleftrightarrow> trend_slope t > 0)
        \<and> (current_trajectory t = ''declining'' \<longleftrightarrow> \<not> trend_slope t > 0))"
proof (intro conjI impI)
  assume "\<not> has_col df ''date''"
  then show "get_cash_flow_trend df = Inr (Inl ''Date column required for trend analysis'', df)"
    by (simp add: get_cash_flow_trend_def)
next
  assume a: "has_col df ''date'' \<and> card (set (List.map_filter row_month (rows df))) < 2"
  let ?df = "df\<lparr>rows := sort_values_date (rows df)\<rparr>"
  have "card (set (List.map_filter row_month (rows ?df))) < 2"
    using a by (simp add: months_sort_values_date)
  then have "length (resample_months (rows ?df)) < 2"
    by (rule single_month_buckets)
  with length_monthly_rows [of ?df]
  have "length (m_rows (create_monthly_aggregations ?df)) < 2" by linarith
  with a show "get_cash_flow_trend df = Inr (Inl ''Insufficient data for trend analysis'', ?df)"
    by (simp add: get_cash_flow_trend_def Let_def)
next
  assume "get_cash_flow_trend df = Inr (Inr t, df')"
  then show "current_trajectory t = ''improving'' \<longleftrightarrow> trend_slope t > 0"
    by (auto simp: get_cash_flow_trend_def Let_def split: if_splits)
next
  assume "get_cash_flow_trend df = Inr (Inr t, df')"
  then show "current_trajectory t = ''declining'' \<longleftrightarrow> \<not> trend_slope t > 0"
    by (auto simp: get_cash_flow_trend_def Let_def split: if_splits)
qed

lemma january_months: "List.map_filter row_month (rows january_frame) = [24288, 24288]"
  by (simp add: january_frame_def map_filter_def row_month_def row_of_def month_index_def)

lemma two_month_sorted:
  "sort_values_date (rows two_month_frame) = rev (rows two_month_frame)"
  by (simp add: two_month_frame_def sort_values_date_def has_date_def date_key_def row_of_def)

lemma two_month_net:
  "monthly_net (create_monthly_aggregations (two_month_frame\<lparr>rows := rev (rows two_month_frame)\<rparr>))
     = [3800, 4600]"
  by (simp add: two_month_frame_def create_monthly_aggregations_def monthly_net_def has_col_def
      resample_months_def map_filter_def row_month_def row_of_def month_index_def Let_def
      bucket_sum_def series_sum_def num_of_def upto.simps)

lemma slope_two_points: "coef (LinearRegression_fit [3800, 4600]) = 800"
  by (simp add: LinearRegression_fit_def Let_def arange_def co_dev_def sq_dev_def mean_def
      power2_eq_square upt_rec [of 0])

lemma two_month_trend:
  "\<exists>t df'. get_cash_flow_trend two_month_frame = Inr (Inr t, df') \<and> trend_slope t = 800"
proof -
  have n: "length (m_rows (create_monthly_aggregations
             (two_month_frame\<lparr>rows := rev (rows two_month_frame)\<rparr>))) = 2"
    using two_month_net by (simp add: monthly_net_def) (metis length_map length_Cons list.size(3) One_nat_def Suc_1)
  have d: "has_col two_month_frame ''date''"
    by (simp add: has_col_def two_month_frame_def)
  show ?thesis
    by (simp add: get_cash_flow_trend_def d two_month_sorted n two_month_net Let_def slope_two_points)
qed

theorem trend_preconditions_witness:
  "get_cash_flow_trend scenario_A
     = Inr (Inl ''Date column required for trend analysis'', scenario_A)
   \<and> has_col january_frame ''date''
   \<and> card (set (List.map_filter row_month (rows january_frame))) = 1
   \<and> get_cash_flow_trend january_frame
       = Inr (Inl ''Insufficient data for trend analysis'',
              january_frame\<lparr>rows := sort_values_date (rows january_frame)\<rparr>)
   \<and> (\<exists>t df'. get_cash_flow_trend two_month_frame = Inr (Inr t, df')
          \<and> trend_slope t = 800 \<and> current_trajectory t = ''improving'')"
proof -
  have a: "\<not> has_col scenario_A ''date''"
    by (simp add: has_col_def scenario_A_def)
  have j: "has_col january_frame ''date''"
    by (simp add: has_col_def january_frame_def)
  have c: "card (set (List.map_filter row_month (rows january_frame))) = 1"
    by (simp add: january_months)
  from two_month_trend obtain t df' where
    t: "get_cash_flow_trend two_month_frame = Inr (Inr t, df')" "trend_slope t = 800"
    by blast
  have 1: "get_cash_flow_trend scenario_A
             = Inr (Inl ''Date column required for trend analysis'', scenario_A)"
    using trend_preconditions [of scenario_A] a by blast
  have 2: "get_cash_flow_trend january_frame
             = Inr (Inl ''Insufficient data for trend analysis'',
                    january_frame\<lparr>rows := sort_values_date (rows january_frame)\<rparr>)"
    using trend_preconditions [of january_frame] j c by simp
  have 3: "current_trajectory t = ''improving''"
    using trend_preconditions [of two_month_frame t df'] t by simp
  from 1 j c 2 t 3 show ?thesis by blast
qed

subsection \<open>Anomaly detection\<close>

text \<open>
  C8. \<open>detect_anomalies\<close> builds its detector with the contamination rate 0.1 and the
  seed 42 and reads the table without changing it. With a detector that honours its
  seed, two runs on one table give the same result whatever the states \<open>g\<close> and \<open>g'\<close> of
  the random generator at the two calls; on a table with at least 10 rows and an
  \<open>amount\<close> column both runs return the same report, hence the same flagged indices,
  count, percentage and total value.
\<close>

theorem detect_anomalies_deterministic:
  assumes "honours_seed fit_predict"
  shows "detect_anomalies fit_predict g' df = detect_anomalies fit_predict g df
       \<and> (10 \<le> length (rows df) \<and> has_col df ''amount'' \<longrightarrow>
            (\<exists>a. detect_anomalies fit_predict g df = Inr a
                \<and> detect_anomalies fit_predict g' df = Inr a))"
proof -
  have "fit_predict (1 / 10) (Some 42) g' X = fit_predict (1 / 10) (Some 42) g X" for X
    using assms unfolding honours_seed_def by blast
  then show ?thesis
    by (simp add: detect_anomalies_def Let_def)
qed

lemma threshold_forest_honours_seed: "honours_seed threshold_forest"
  by (simp add: honours_seed_def threshold_forest_def)

lemma threshold_forest_unseeded:
  "threshold_forest c None 0 [0] \<noteq> threshold_forest c None 1 [0]"
  by (simp add: threshold_forest_def)

lemma upt_ten: "[0..<10] = [0, 1, 2, 3, 4, 5, 6, 7, 8, 9 :: nat]"
  by code_simp

lemma ten_row_labels:
  "threshold_forest (1 / 10) (Some 42) g (map (\<lambda>r. num_of (r ''amount'')) (rows ten_row_frame))
     = [1, 1, 1, 1, - 1, 1, 1, 1, 1, 1]"
  by (simp add: threshold_forest_def ten_row_frame_def row_of_def num_of_def)

lemma ten_row_indices:
  "\<exists>a. detect_anomalies threshold_forest 0 ten_row_frame = Inr a \<and> anomaly_indices a = [4]
       \<and> anomaly_count a = 1"
proof -
  have l: "\<not> length (rows ten_row_frame) < 10" "has_col ten_row_frame ''amount''"
    by (simp_all add: ten_row_frame_def has_col_def)
  show ?thesis
    by (simp add: detect_anomalies_def l Let_def ten_row_labels upt_ten)
qed

theorem detect_anomalies_deterministic_witness:
  "honours_seed threshold_forest
   \<and> 10 \<le> length (rows ten_row_frame) \<and> has_col ten_row_frame ''amount''
   \<and> detect_anomalies threshold_forest 1 ten_row_frame
       = detect_anomalies threshold_forest 0 ten_row_frame
   \<and> (\<exists>a. detect_anomalies threshold_forest 0 ten_row_frame = Inr a
          \<and> detect_anomalies threshold_forest 1 ten_row_frame = Inr a
          \<and> anomaly_indices a = [4])"
proof -
  have l: "10 \<le> length (rows ten_row_frame)" "has_col ten_row_frame ''amount''"
    by (simp_all add: ten_row_frame_def has_col_def)
  note d = detect_anomalies_deterministic
    [OF threshold_forest_honours_seed, of 1 ten_row_frame 0]
  from ten_row_indices obtain a where
    a: "detect_anomalies threshold_forest 0 ten_row_frame = Inr a" "anomaly_indices a = [4]"
    by blast
  from d a l threshold_forest_honours_seed show ?thesis by simp
qed

subsection \<open>What the metrics do to the table\<close>
















end
